theory Spec2Isabelle
  imports Complex_Main "HOL-Library.Sublist" "HOL-Library.Log_Nat"
begin

section \<open>Python strings and dictionaries\<close>

text \<open>
  Strings are \<open>string\<close> (lists of 8-bit characters): the identifiers, severities and
  framework names of the program are ASCII, and \<open>str.lower\<close>/\<open>str.upper\<close> are modelled
  on the ASCII letters and leave every other character alone.
\<close>

definition lower_char :: "char \<Rightarrow> char" where
  "lower_char c =
     (let n = (of_char c :: nat) in if 65 \<le> n \<and> n \<le> 90 then char_of (n + 32) else c)"

definition upper_char :: "char \<Rightarrow> char" where
  "upper_char c =
     (let n = (of_char c :: nat) in if 97 \<le> n \<and> n \<le> 122 then char_of (n - 32) else c)"

definition lower :: "string \<Rightarrow> string" where
  "lower s = map lower_char s"

definition upper :: "string \<Rightarrow> string" where
  "upper s = map upper_char s"

text \<open>\<open>x in s\<close> on strings: \<open>x\<close> occurs in \<open>s\<close> as a contiguous substring.\<close>

fun str_in :: "string \<Rightarrow> string \<Rightarrow> bool" where
  "str_in x [] = (x = [])"
| "str_in x (c # cs) = (take (length x) (c # cs) = x \<or> str_in x cs)"

text \<open>\<open>any(x in s for x in keywords)\<close>\<close>

definition any_in :: "string list \<Rightarrow> string \<Rightarrow> bool" where
  "any_in keywords s = list_ex (\<lambda>x. str_in x s) keywords"

text \<open>
  A Python \<open>dict\<close> is an association list in insertion order with distinct keys:
  \<open>d.get(k, default)\<close> is \<open>dict_get\<close>, \<open>d[k] = v\<close> is \<open>dict_set\<close> (an existing key
  keeps its place, a new key goes to the end).
\<close>

definition dict_get :: "('k \<times> 'v) list \<Rightarrow> 'k \<Rightarrow> 'v \<Rightarrow> 'v" where
  "dict_get d k dflt = (case map_of d k of None \<Rightarrow> dflt | Some v \<Rightarrow> v)"

fun dict_set :: "('k \<times> 'v) list \<Rightarrow> 'k \<Rightarrow> 'v \<Rightarrow> ('k \<times> 'v) list" where
  "dict_set [] k v = [(k, v)]"
| "dict_set ((k', v') # d) k v =
     (if k' = k then (k', v) # d else (k', v') # dict_set d k v)"

section \<open>Framework registry (framework\_categories.py)\<close>

record CategoryDef =
  cd_id :: string
  cd_name :: string
  cd_description :: string
  cd_priority :: string
  cd_checks :: "string list"

definition OWASP_CATEGORIES :: "(string \<times> CategoryDef) list" where
  "OWASP_CATEGORIES = [
    (''A01_BROKEN_ACCESS_CONTROL'', \<lparr>cd_id = ''A01'', cd_name = ''Broken Access Control'',
      cd_description = ''Still the leading risk, covering flaws that allow attackers to bypass authorization or gain unauthorized access.'',
      cd_priority = ''High'',
      cd_checks = [''access_control_bypass'', ''privilege_escalation'', ''authorization_flaws'',
        ''insecure_direct_object_references'', ''cors_misconfiguration'',
        ''missing_access_controls'']\<rparr>),
    (''A02_CRYPTOGRAPHIC_FAILURES'', \<lparr>cd_id = ''A02'', cd_name = ''Cryptographic Failures'',
      cd_description = ''Insecure or outdated encryption practices that expose sensitive data.'',
      cd_priority = ''High'',
      cd_checks = [''weak_encryption'', ''hardcoded_secrets'', ''insecure_hashing'',
        ''exposed_credentials'', ''weak_tls'', ''insufficient_data_protection'']\<rparr>),
    (''A03_INJECTION'', \<lparr>cd_id = ''A03'', cd_name = ''Injection'',
      cd_description = ''Classic input-validation flaws such as SQL, OS, and template injection that remain common across stacks.'',
      cd_priority = ''High'',
      cd_checks = [''sql_injection'', ''os_command_injection'', ''template_injection'',
        ''xpath_injection'', ''ldap_injection'', ''code_injection'']\<rparr>),
    (''A04_INSECURE_DESIGN'', \<lparr>cd_id = ''A04'', cd_name = ''Insecure Design'',
      cd_description = ''Missing or inadequate security controls in the design phase.'',
      cd_priority = ''High'',
      cd_checks = [''missing_security_controls'', ''insecure_patterns'', ''rate_limiting_absent'',
        ''missing_authentication'', ''weak_session_management'']\<rparr>),
    (''A05_SECURITY_MISCONFIGURATION'', \<lparr>cd_id = ''A05'', cd_name = ''Security Misconfiguration'',
      cd_description = ''Covers weak default settings, exposed services, and inconsistent security controls across environments.'',
      cd_priority = ''High'',
      cd_checks = [''insecure_defaults'', ''exposed_services'', ''missing_security_headers'',
        ''debug_mode_enabled'', ''default_credentials'', ''unnecessary_features_enabled'']\<rparr>),
    (''A06_VULNERABLE_COMPONENTS'', \<lparr>cd_id = ''A06'',
      cd_name = ''Vulnerable and Outdated Components'',
      cd_description = ''Unpatched or outdated software components with known vulnerabilities.'',
      cd_priority = ''High'',
      cd_checks = [''outdated_dependencies'', ''known_cve_versions'', ''vulnerable_libraries'',
        ''missing_patches'']\<rparr>),
    (''A07_AUTHENTICATION_FAILURES'', \<lparr>cd_id = ''A07'', cd_name = ''Authentication Failures'',
      cd_description = ''Issues in login flows, weak password policies, or session handling that lead to unauthorized access.'',
      cd_priority = ''High'',
      cd_checks = [''weak_authentication'', ''weak_password_policy'', ''session_fixation'',
        ''missing_mfa'', ''broken_authentication'', ''credential_exposure'']\<rparr>),
    (''A08_DATA_INTEGRITY_FAILURES'', \<lparr>cd_id = ''A08'',
      cd_name = ''Software or Data Integrity Failures'',
      cd_description = ''Flaws where code or data can be modified or tampered with, often in update mechanisms or pipelines.'',
      cd_priority = ''High'',
      cd_checks = [''insecure_deserialization'', ''unsigned_updates'', ''missing_signatures'',
        ''unsafe_deployment'', ''code_tampering'']\<rparr>),
    (''A09_LOGGING_MONITORING_FAILURES'', \<lparr>cd_id = ''A09'',
      cd_name = ''Logging and Monitoring Failures'',
      cd_description = ''Insufficient logging and monitoring to detect security incidents.'',
      cd_priority = ''Medium'',
      cd_checks = [''missing_logging'', ''insufficient_monitoring'', ''inadequate_alerting'',
        ''log_tampering'', ''no_audit_trail'']\<rparr>),
    (''A10_EXCEPTIONAL_CONDITIONS'', \<lparr>cd_id = ''A10'',
      cd_name = ''Mishandling of Exceptional Conditions'',
      cd_description = ''New for 2025, focused on unsafe error handling and system resilience when failures occur.'',
      cd_priority = ''Medium'',
      cd_checks = [''unsafe_error_handling'', ''sensitive_info_in_errors'',
        ''unhandled_exceptions'', ''poor_error_recovery'', ''resource_exhaustion'']\<rparr>)]"

definition CIS_CATEGORIES :: "(string \<times> CategoryDef) list" where
  "CIS_CATEGORIES = [
    (''CIS_APP_SOFTWARE_SECURITY'', \<lparr>cd_id = ''CIS-AS'',
      cd_name = ''Application Software Security'',
      cd_description = ''Ensures web apps follow secure coding practices, including input validation enforcement, secure API design and dependency vulnerability scanning.'',
      cd_priority = ''High'',
      cd_checks = [''input_validation'', ''secure_api_design'', ''dependency_scanning'',
        ''secure_code_practices'', ''buffer_overflow_prevention'',
        ''format_string_prevention'']\<rparr>),
    (''CIS_ACCESS_CONTROL_MANAGEMENT'', \<lparr>cd_id = ''CIS-AC'',
      cd_name = ''Access Control Management'',
      cd_description = ''Enforces role-based authorization, least privilege, session timeouts and protections against privilege escalation via endpoints.'',
      cd_priority = ''High'',
      cd_checks = [''role_based_access'', ''least_privilege'', ''session_timeout'',
        ''privilege_escalation_protection'', ''endpoint_authorization'',
        ''resource_access_controls'']\<rparr>)]"

definition NIST_CATEGORIES :: "(string \<times> CategoryDef) list" where
  "NIST_CATEGORIES = [
    (''NIST_IA'', \<lparr>cd_id = ''NIST-IA'', cd_name = ''Identification and Authentication (IA)'',
      cd_description = ''Validates authentication strength, password rules, MFA enforcement, session security.'',
      cd_priority = ''High'',
      cd_checks = [''user_identification'', ''authentication_strength'',
        ''password_requirements'', ''mfa_enforcement'', ''session_security'',
        ''failed_login_attempts'', ''password_expiration'', ''account_lockout'']\<rparr>),
    (''NIST_AC'', \<lparr>cd_id = ''NIST-AC'', cd_name = ''Access Control (AC)'',
      cd_description = ''Manages authorization, permissions, roles, and access enforcement.'',
      cd_priority = ''High'',
      cd_checks = [''access_control_policy'', ''least_privilege_enforcement'',
        ''role_based_access'', ''separation_of_duties'', ''access_enforcement'',
        ''boundary_protection'']\<rparr>),
    (''NIST_AU'', \<lparr>cd_id = ''NIST-AU'', cd_name = ''Audit and Accountability (AU)'',
      cd_description = ''Logging, monitoring, and audit trail management.'',
      cd_priority = ''Medium'',
      cd_checks = [''audit_logging'', ''log_protection'', ''log_retention'', ''audit_review'',
        ''accountability'', ''tamper_detection'']\<rparr>),
    (''NIST_SI'', \<lparr>cd_id = ''NIST-SI'', cd_name = ''System and Information Integrity (SI)'',
      cd_description = ''Malware protection, security updates, and system monitoring.'',
      cd_priority = ''High'',
      cd_checks = [''malware_protection'', ''security_updates'', ''system_monitoring'',
        ''information_integrity'', ''flaw_remediation'', ''security_testing'']\<rparr>),
    (''NIST_SC'', \<lparr>cd_id = ''NIST-SC'', cd_name = ''System and Communications Protection (SC)'',
      cd_description = ''Cryptography, encryption, and secure communications.'',
      cd_priority = ''High'',
      cd_checks = [''encryption_in_transit'', ''encryption_at_rest'', ''key_management'',
        ''cryptographic_controls'', ''secure_protocols'', ''boundary_protection'']\<rparr>)]"

text \<open>
  \<open>FrameworkType(framework_name.upper())\<close> raises \<open>ValueError\<close> unless the upper-cased
  name is one of the three enum values; \<open>get_categories_for_framework\<close> catches it and
  returns the empty dict.
\<close>

definition get_categories_for_framework :: "string \<Rightarrow> (string \<times> CategoryDef) list" where
  "get_categories_for_framework framework_name =
     (let n = upper framework_name in
      if n = ''OWASP'' then OWASP_CATEGORIES
      else if n = ''CIS'' then CIS_CATEGORIES
      else if n = ''NIST'' then NIST_CATEGORIES
      else [])"

text \<open>The \<open>severity\<close> argument of the source is never read.\<close>

definition map_scanner_finding_to_categories :: "string \<Rightarrow> string \<Rightarrow> string \<Rightarrow> string list" where
  "map_scanner_finding_to_categories framework_name finding_type severity =
     map (\<lambda>(category_id, category_def). cd_id category_def)
       (filter (\<lambda>(category_id, category_def). finding_type \<in> set (cd_checks category_def))
          (get_categories_for_framework framework_name))"

section \<open>Finding classifier (category\_checker.py)\<close>

text \<open>
  A raw finding is a dict; the keys the classifier reads are fields, \<open>None\<close> for an absent
  key (\<open>finding.get(key, default)\<close>).
\<close>

record Finding =
  f_type :: "string option"
  f_rule_id :: "string option"
  f_message :: "string option"
  f_severity :: "string option"
  f_file :: "string option"
  f_line :: "int option"

definition get_str :: "string option \<Rightarrow> string \<Rightarrow> string" where
  "get_str field dflt = (case field of None \<Rightarrow> dflt | Some v \<Rightarrow> v)"

definition test_mappings :: "(string \<times> string) list" where
  "test_mappings = [
    (''hardcoded_password'', ''hardcoded_secrets''),
    (''hardcoded_sql_string'', ''sql_injection''),
    (''hardcoded_temp_file'', ''insecure_defaults''),
    (''assert_used'', ''security_misconfiguration''),
    (''exec_used'', ''code_injection''),
    (''eval_used'', ''code_injection''),
    (''subprocess'', ''os_command_injection''),
    (''start_process_with_a_shell'', ''os_command_injection''),
    (''start_process_with_partial_path'', ''os_command_injection''),
    (''suspicious_non_cryptographic_random_usage'', ''weak_encryption''),
    (''use_of_input_instead_of_raw_input'', ''input_validation''),
    (''import_telnetlib'', ''insecure_protocols''),
    (''try_except_pass'', ''unsafe_error_handling''),
    (''except_pass'', ''unsafe_error_handling''),
    (''bad_file_permissions'', ''insecure_defaults''),
    (''flask_debug_true'', ''debug_mode_enabled''),
    (''insecure_hash_function'', ''weak_encryption''),
    (''insecure_random_function'', ''weak_encryption''),
    (''paramiko_calls'', ''weak_encryption''),
    (''request_with_no_cert_validation'', ''insecure_protocols''),
    (''use_of_mako_templates'', ''template_injection''),
    (''jinja2_autoescape_false'', ''template_injection'')]"

text \<open>The canonical check identifier of a Bandit finding: \<open>test_mappings.get(issue_type, issue_type)\<close>.\<close>

definition bandit_check_type :: "Finding \<Rightarrow> string" where
  "bandit_check_type finding =
     (let issue_type = lower (get_str (f_type finding) '''')
      in dict_get test_mappings issue_type issue_type)"

definition map_bandit_to_categories :: "string \<Rightarrow> Finding \<Rightarrow> string list" where
  "map_bandit_to_categories framework_name finding =
     (let severity = lower (get_str (f_severity finding) '''')
      in map_scanner_finding_to_categories framework_name (bandit_check_type finding) severity)"

text \<open>
  The canonical check identifier of a Semgrep finding: the \<open>if\<close>/\<open>elif\<close> chain over the
  lower-cased \<open>rule_id\<close>. The source also binds \<open>message\<close> and never reads it.
\<close>

definition semgrep_check_type :: "Finding \<Rightarrow> string" where
  "semgrep_check_type finding =
     (let rule_id = lower (get_str (f_rule_id finding) '''');
          message = lower (get_str (f_message finding) '''')
      in if any_in [''sql'', ''injection''] rule_id then ''sql_injection''
         else if any_in [''auth'', ''password'', ''credential''] rule_id then ''weak_authentication''
         else if any_in [''crypto'', ''encrypt'', ''hash''] rule_id then ''weak_encryption''
         else if any_in [''access'', ''control'', ''permission''] rule_id then ''access_control_bypass''
         else if any_in [''xxe'', ''xml'', ''parse''] rule_id then ''injection''
         else if any_in [''xss'', ''script'', ''html''] rule_id then ''injection''
         else if any_in [''command'', ''exec'', ''os''] rule_id then ''os_command_injection''
         else if any_in [''error'', ''exception'', ''logging''] rule_id then ''unsafe_error_handling''
         else if any_in [''default'', ''config'', ''setting''] rule_id then ''insecure_defaults''
         else rule_id)"

definition map_semgrep_to_categories :: "string \<Rightarrow> Finding \<Rightarrow> string list" where
  "map_semgrep_to_categories framework_name finding =
     (let severity = lower (get_str (f_severity finding) '''')
      in map_scanner_finding_to_categories framework_name (semgrep_check_type finding) severity)"

text \<open>An entry of a category's list in the categorized findings.\<close>

record Entry =
  e_tool :: string
  e_finding :: Finding
  e_severity :: string
  e_file :: "string option"
  e_line :: "int option"

definition make_entry :: "string \<Rightarrow> Finding \<Rightarrow> Entry" where
  "make_entry tool finding =
     \<lparr>e_tool = tool, e_finding = finding,
      e_severity = upper (get_str (f_severity finding) ''unknown''),
      e_file = f_file finding, e_line = f_line finding\<rparr>"

text \<open>The inner loop: append the entry to the list of every matched category.\<close>

fun append_to_categories ::
  "string list \<Rightarrow> Entry \<Rightarrow> (string \<times> Entry list) list \<Rightarrow> (string \<times> Entry list) list" where
  "append_to_categories [] entry categorized = categorized"
| "append_to_categories (category_id # rest) entry categorized =
     append_to_categories rest entry
       (dict_set categorized category_id (dict_get categorized category_id [] @ [entry]))"

fun categorize_tool ::
  "string \<Rightarrow> (string \<Rightarrow> Finding \<Rightarrow> string list) \<Rightarrow> string \<Rightarrow> Finding list \<Rightarrow>
   (string \<times> Entry list) list \<Rightarrow> (string \<times> Entry list) list" where
  "categorize_tool tool mapper framework_name [] categorized = categorized"
| "categorize_tool tool mapper framework_name (finding # rest) categorized =
     categorize_tool tool mapper framework_name rest
       (append_to_categories (mapper framework_name finding) (make_entry tool finding) categorized)"

definition categorize_findings ::
  "string \<Rightarrow> (string \<times> Finding list) list \<Rightarrow> (string \<times> Entry list) list" where
  "categorize_findings framework_name findings =
     categorize_tool ''semgrep'' map_semgrep_to_categories framework_name
       (dict_get findings ''semgrep'' [])
       (categorize_tool ''bandit'' map_bandit_to_categories framework_name
          (dict_get findings ''bandit'' []) [])"

section \<open>Category scorer (category\_checker.py)\<close>

text \<open>
  A Python float is an IEEE 754 double; it is modelled by the rational number it is. Each
  arithmetic operation on floats returns the double nearest to the exact result, a tie
  going to the double with the even mantissa: \<open>fl\<close> is that rounding, with 53-bit
  mantissas and subnormals below \<open>2^-1022\<close>. The model has no infinities: it is the
  program on values below \<open>2^1024\<close>. A decimal literal such as \<open>0.35\<close> is the double
  \<open>fl (35 / 100)\<close>. The category scores are integers between 0 and 100 and the
  deductions are integers, all of them doubles, so that \<open>fl\<close> does not show there.
\<close>

definition pow2 :: "int \<Rightarrow> rat" where
  "pow2 e = (if 0 \<le> e then 2 ^ nat e else 1 / 2 ^ nat (- e))"

text \<open>The exponent of a non-zero number: the \<open>e\<close> with \<open>2^e \<le> |x| < 2^(e+1)\<close>.\<close>

definition ilog2 :: "rat \<Rightarrow> int" where
  "ilog2 x =
     (case quotient_of \<bar>x\<bar> of
        (p, q) \<Rightarrow> (let d = bitlen p - bitlen q in if pow2 d \<le> \<bar>x\<bar> then d else d - 1))"

definition round_half_even :: "rat \<Rightarrow> int" where
  "round_half_even y =
     (let f = \<lfloor>y\<rfloor>; d = y - of_int f
      in if d < 1 / 2 then f else if 1 / 2 < d then f + 1 else if even f then f else f + 1)"

definition fl :: "rat \<Rightarrow> rat" where
  "fl x =
     (if x = 0 then 0
      else (let q = pow2 (max (ilog2 x) (- 1022) - 52)
            in of_int (round_half_even (x / q)) * q))"

datatype error = ValueError | TypeError | ZeroDivisionError | IntegrityError | DataError
  | BrokerError | ScannerError

text \<open>
  \<open>round(x, 2)\<close> is the double nearest to the multiple of 0.01 nearest to the float
  \<open>x\<close>, a tie going to the even multiple. \<open>py_round2\<close> gives that multiple of 0.01:
  the float \<open>round\<close> returns is represented by the two-decimal number it stands for
  and prints as.
\<close>

definition py_round2 :: "rat \<Rightarrow> rat" where
  "py_round2 x =
     (let y = x * 100; f = \<lfloor>y\<rfloor>; d = y - of_int f
      in of_int (if d < 1 / 2 then f else if 1 / 2 < d then f + 1
                 else if even f then f else f + 1) / 100)"

text \<open>\<open>a / b\<close> on floats raises on a zero divisor.\<close>

definition float_div :: "rat \<Rightarrow> rat \<Rightarrow> error + rat" where
  "float_div a b = (if b = 0 then Inl ZeroDivisionError else Inr (fl (a / b)))"

text \<open>
  The dict \<open>calculate_category_scores\<close> stores per category, as a record. The score and
  the priority are optional (\<open>None\<close> for a dict without the key), for the maps that
  reach \<open>calculate_overall_score\<close> without them.
\<close>

record ScoreData =
  sd_category :: string
  sd_score :: "rat option"
  sd_total_issues :: nat
  sd_critical :: nat
  sd_high :: nat
  sd_medium :: nat
  sd_low :: nat
  sd_priority :: "string option"

text \<open>\<open>len([f for f in findings if f["severity"] == s])\<close>\<close>

definition count_severity :: "string \<Rightarrow> Entry list \<Rightarrow> nat" where
  "count_severity s findings = length (filter (\<lambda>f. e_severity f = s) findings)"

text \<open>The body of the loop of \<open>calculate_category_scores\<close>, for one category and its findings.\<close>

definition score_category :: "CategoryDef \<Rightarrow> Entry list \<Rightarrow> ScoreData" where
  "score_category category_def findings =
     (let critical = count_severity ''CRITICAL'' findings;
          high = count_severity ''HIGH'' findings;
          medium = count_severity ''MEDIUM'' findings;
          low = count_severity ''LOW'' findings;
          total_issues = critical + high + medium + low;
          score = 100 - of_nat critical * 25 - of_nat high * 15 - of_nat medium * 8
                    - of_nat low * 3;
          score = max 0 (min 100 score)
      in \<lparr>sd_category = cd_name category_def, sd_score = Some (py_round2 score),
          sd_total_issues = total_issues, sd_critical = critical, sd_high = high,
          sd_medium = medium, sd_low = low, sd_priority = Some (cd_priority category_def)\<rparr>)"

fun category_scores_loop ::
  "(string \<times> CategoryDef) list \<Rightarrow> (string \<times> Entry list) list \<Rightarrow>
   (string \<times> ScoreData) list \<Rightarrow> (string \<times> ScoreData) list" where
  "category_scores_loop [] categorized_findings category_scores = category_scores"
| "category_scores_loop ((category_id, category_def) # rest) categorized_findings category_scores =
     category_scores_loop rest categorized_findings
       (dict_set category_scores (cd_id category_def)
          (score_category category_def
             (dict_get categorized_findings (cd_id category_def) [])))"

definition calculate_category_scores ::
  "string \<Rightarrow> (string \<times> Entry list) list \<Rightarrow> (string \<times> ScoreData) list" where
  "calculate_category_scores framework_name categorized_findings =
     category_scores_loop (get_categories_for_framework framework_name) categorized_findings []"

text \<open>
  \<open>calculate_overall_score\<close> takes a \<open>Dict[str, Dict[str, Any]]\<close>: the values it reads
  may be any Python value. \<open>PFloat x\<close> stands for the double nearest to \<open>x\<close>
  (\<open>fl x\<close>, which is \<open>x\<close> when \<open>x\<close> is a double), \<open>PInt i\<close> for the integer
  \<open>i\<close>, which an operation with a float converts to the nearest double.
\<close>

datatype pyval = PNone | PBool bool | PInt int | PFloat rat | PStr string
  | PList "pyval list" | PDict "(string \<times> pyval) list"

type_synonym pydict = "(string \<times> pyval) list"

definition priority_weights :: "(string \<times> rat) list" where
  "priority_weights =
     [(''High'', fl (50 / 100)), (''Medium'', fl (35 / 100)), (''Low'', fl (15 / 100))]"

text \<open>
  \<open>priority_weights.get(priority, 0.35)\<close>: a list or a dict is unhashable and makes the
  lookup raise \<open>TypeError\<close>; any other value that is no key of the table gets the default.
\<close>

definition weights_get :: "pyval \<Rightarrow> error + rat" where
  "weights_get priority =
     (case priority of
        PList _ \<Rightarrow> Inl TypeError
      | PDict _ \<Rightarrow> Inl TypeError
      | PStr p \<Rightarrow> Inr (dict_get priority_weights p (fl (35 / 100)))
      | _ \<Rightarrow> Inr (fl (35 / 100)))"

text \<open>
  \<open>score * weight\<close> with a float weight: a number (a bool counts as 0 or 1) gives the
  float product; \<open>None\<close>, a string, a list or a dict raises \<open>TypeError\<close>.
\<close>

definition times_weight :: "pyval \<Rightarrow> rat \<Rightarrow> error + rat" where
  "times_weight score weight =
     (case score of
        PFloat x \<Rightarrow> Inr (fl (fl x * weight))
      | PInt i \<Rightarrow> Inr (fl (fl (of_int i) * weight))
      | PBool b \<Rightarrow> Inr (fl ((if b then 1 else 0) * weight))
      | _ \<Rightarrow> Inl TypeError)"

fun overall_loop :: "(string \<times> pydict) list \<Rightarrow> rat \<times> rat \<Rightarrow> error + rat \<times> rat" where
  "overall_loop [] (weighted_sum, total_weight) = Inr (weighted_sum, total_weight)"
| "overall_loop ((category_id, score_data) # rest) (weighted_sum, total_weight) =
     (let priority = dict_get score_data ''priority'' (PStr ''Medium'')
      in case weights_get priority of
           Inl e \<Rightarrow> Inl e
         | Inr weight \<Rightarrow>
             (let score = dict_get score_data ''score'' (PInt 0)
              in case times_weight score weight of
                   Inl e \<Rightarrow> Inl e
                 | Inr product \<Rightarrow>
                     overall_loop rest
                       (fl (weighted_sum + product), fl (total_weight + weight))))"

text \<open>\<open>calculate_overall_score\<close> on any dict of dicts.\<close>

definition calculate_overall_score_any :: "(string \<times> pydict) list \<Rightarrow> error + rat" where
  "calculate_overall_score_any category_scores =
     (case overall_loop category_scores (0, 0) of
        Inl e \<Rightarrow> Inl e
      | Inr (weighted_sum, total_weight) \<Rightarrow>
          if total_weight = 0 then Inr 100
          else (case float_div weighted_sum total_weight of
                  Inl e \<Rightarrow> Inl e
                | Inr overall_score \<Rightarrow> Inr (py_round2 overall_score)))"

text \<open>
  The dict a \<open>ScoreData\<close> record stands for, with the keys in the order
  \<open>calculate_category_scores\<close> writes them, and \<open>calculate_overall_score\<close> on a map of
  such records.
\<close>

definition score_data_dict :: "ScoreData \<Rightarrow> pydict" where
  "score_data_dict sd =
     [(''category'', PStr (sd_category sd))]
     @ (case sd_score sd of None \<Rightarrow> [] | Some v \<Rightarrow> [(''score'', PFloat v)])
     @ [(''total_issues'', PInt (int (sd_total_issues sd))),
        (''critical'', PInt (int (sd_critical sd))), (''high'', PInt (int (sd_high sd))),
        (''medium'', PInt (int (sd_medium sd))), (''low'', PInt (int (sd_low sd)))]
     @ (case sd_priority sd of None \<Rightarrow> [] | Some p \<Rightarrow> [(''priority'', PStr p)])"

definition calculate_overall_score :: "(string \<times> ScoreData) list \<Rightarrow> error + rat" where
  "calculate_overall_score category_scores =
     calculate_overall_score_any
       (map (\<lambda>(category_id, score_data). (category_id, score_data_dict score_data))
          category_scores)"

text \<open>
  The weighted mean as the specification words it: the sum of score times weight over the
  sum of the weights, with the weight fixed by the priority tier; \<open>weighted_mean\<close> in
  exact arithmetic, \<open>float_weighted_mean\<close> in floats, the sums taken in the order of the
  list from 0.0.
\<close>

definition tier_weight :: "string \<Rightarrow> rat" where
  "tier_weight p = (if p = ''High'' then 50 / 100 else if p = ''Medium'' then 35 / 100
                    else 15 / 100)"

definition weighted_mean :: "(rat \<times> rat) list \<Rightarrow> rat" where
  "weighted_mean sw = sum_list (map (\<lambda>(s, w). s * w) sw) / sum_list (map snd sw)"

definition float_weighted_mean :: "(rat \<times> rat) list \<Rightarrow> rat" where
  "float_weighted_mean sw =
     fl (foldl (\<lambda>acc (s, w). fl (acc + fl (s * w))) 0 sw
         / foldl (\<lambda>acc (s, w). fl (acc + w)) 0 sw)"

definition well_formed_entry :: "ScoreData \<Rightarrow> bool" where
  "well_formed_entry sd =
     (sd_score sd \<noteq> None \<and> sd_priority sd \<in> {Some ''High'', Some ''Medium'', Some ''Low''})"

definition scores_weights :: "(string \<times> ScoreData) list \<Rightarrow> (rat \<times> rat) list" where
  "scores_weights category_scores =
     map (\<lambda>(category_id, sd).
            (fl (the (sd_score sd)), fl (tier_weight (the (sd_priority sd)))))
       category_scores"

text \<open>
  What an entry is read as: the number under \<open>score\<close>, 0 when there is none; the weight
  of the tier under \<open>priority\<close>, and the Medium weight when there is no priority or it
  is no tier.
\<close>

definition number_value :: "pyval \<Rightarrow> rat" where
  "number_value v =
     (case v of PFloat x \<Rightarrow> fl x | PInt i \<Rightarrow> fl (of_int i)
      | PBool b \<Rightarrow> (if b then 1 else 0) | _ \<Rightarrow> 0)"

definition is_number :: "pyval \<Rightarrow> bool" where
  "is_number v = (case v of PFloat x \<Rightarrow> True | PInt i \<Rightarrow> True | PBool b \<Rightarrow> True | _ \<Rightarrow> False)"

definition hashable :: "pyval \<Rightarrow> bool" where
  "hashable v = (case v of PList xs \<Rightarrow> False | PDict d \<Rightarrow> False | _ \<Rightarrow> True)"

definition read_score :: "pydict \<Rightarrow> rat" where
  "read_score d = (case map_of d ''score'' of None \<Rightarrow> 0 | Some v \<Rightarrow> number_value v)"

definition read_weight :: "pydict \<Rightarrow> rat" where
  "read_weight d =
     (if map_of d ''priority'' = Some (PStr ''High'') then fl (50 / 100)
      else if map_of d ''priority'' = Some (PStr ''Low'') then fl (15 / 100)
      else fl (35 / 100))"

text \<open>
  An entry the function can read: its priority, when present, is hashable, and its score,
  when present, is a number between 0 and 100.
\<close>

definition readable_entry :: "pydict \<Rightarrow> bool" where
  "readable_entry d =
     ((case map_of d ''priority'' of None \<Rightarrow> True | Some v \<Rightarrow> hashable v)
      \<and> (case map_of d ''score'' of
            None \<Rightarrow> True
          | Some v \<Rightarrow> is_number v \<and> 0 \<le> number_value v \<and> number_value v \<le> 100))"

text \<open>
  An entry on which the function raises \<open>TypeError\<close>: its priority is present and
  unhashable, or its score is present and no number.
\<close>

definition raises_type_error :: "pydict \<Rightarrow> bool" where
  "raises_type_error d =
     ((case map_of d ''priority'' of None \<Rightarrow> False | Some v \<Rightarrow> \<not> hashable v)
      \<or> (case map_of d ''score'' of None \<Rightarrow> False | Some v \<Rightarrow> \<not> is_number v))"

section \<open>Scan records, orchestrator and workers\<close>

text \<open>
  A JSON value the program stores without looking into it (a worker's result, a tool's raw
  output) is an opaque \<open>json\<close>. The JSON columns \<open>findings\<close> and \<open>raw_output\<close> of a scan
  record are dicts keyed by analysis type, or NULL.
\<close>

type_synonym json = string

record ScanResult =
  sr_id :: nat
  sr_scan_id :: string
  sr_framework_id :: int
  sr_repository_url :: string
  sr_branch :: string
  sr_commit_hash :: "string option"
  sr_scan_date :: nat
  sr_status :: string
  sr_findings :: "(string \<times> json) list option"
  sr_compliance_score :: rat
  sr_raw_output :: "(string \<times> json) list option"

record Task =
  t_name :: string
  t_args :: "string list"
  t_priority :: int
  t_queue :: string

text \<open>
  The state outside the process: the primary keys of the \<open>frameworks\<close> table, the rows of
  \<open>scan_results\<close>, and the tasks the broker holds.
\<close>

record system =
  frameworks :: "int list"
  scan_results :: "ScanResult list"
  task_queue :: "Task list"

text \<open>
  \<open>db.add(row); db.commit()\<close>. The table declares the widths of its string columns
  (\<open>scan_id\<close> 50, \<open>repository_url\<close> 200, \<open>branch\<close> 100, \<open>commit_hash\<close> 40,
  \<open>status\<close> 20 characters) and \<open>framework_id\<close> a 32-bit INTEGER: a value that does
  not fit is refused with a \<open>DataError\<close>. It declares \<open>framework_id\<close> a foreign key
  into \<open>frameworks.id\<close> and \<open>scan_id\<close> unique: a row that violates either is refused
  with an \<open>IntegrityError\<close>. The primary key is assigned by the database.
\<close>

definition fits_columns :: "ScanResult \<Rightarrow> bool" where
  "fits_columns row =
     (length (sr_scan_id row) \<le> 50 \<and> length (sr_repository_url row) \<le> 200
      \<and> length (sr_branch row) \<le> 100
      \<and> (case sr_commit_hash row of None \<Rightarrow> True | Some h \<Rightarrow> length h \<le> 40)
      \<and> length (sr_status row) \<le> 20
      \<and> - 2147483648 \<le> sr_framework_id row \<and> sr_framework_id row \<le> 2147483647)"

definition next_id :: "ScanResult list \<Rightarrow> nat" where
  "next_id rows = Suc (fold max (map sr_id rows) 0)"

definition db_insert :: "system \<Rightarrow> ScanResult \<Rightarrow> error + system" where
  "db_insert s row =
     (if fits_columns row
      then (if sr_framework_id row \<in> set (frameworks s)
            then (if sr_scan_id row \<in> set (map sr_scan_id (scan_results s))
                  then Inl IntegrityError
                  else Inr (s\<lparr>scan_results :=
                               scan_results s @ [row\<lparr>sr_id := next_id (scan_results s)\<rparr>]\<rparr>))
            else Inl IntegrityError)
      else Inl DataError)"

text \<open>\<open>db.query(ScanResult).filter(ScanResult.scan_id == scan_id).first()\<close>\<close>

definition query_first :: "system \<Rightarrow> string \<Rightarrow> ScanResult option" where
  "query_first s scan_id = find (\<lambda>r. sr_scan_id r = scan_id) (scan_results s)"

text \<open>
  \<open>db.commit()\<close> after attribute assignments on a loaded object: the assigned columns of
  the row with the object's primary key are written.
\<close>

definition db_update :: "system \<Rightarrow> nat \<Rightarrow> (ScanResult \<Rightarrow> ScanResult) \<Rightarrow> system" where
  "db_update s pk assign =
     s\<lparr>scan_results := map (\<lambda>r. if sr_id r = pk then assign r else r) (scan_results s)\<rparr>"

text \<open>
  \<open>celery_app.send_task\<close> hands a task to the broker and raises when the broker does not
  take it; \<open>broker\<close> says which tasks it takes. The tasks are sent in order, and the
  first failure leaves the earlier ones enqueued.
\<close>

fun send_tasks :: "(Task \<Rightarrow> bool) \<Rightarrow> Task list \<Rightarrow> Task list \<Rightarrow> bool \<times> Task list" where
  "send_tasks broker [] q = (True, q)"
| "send_tasks broker (t # ts) q =
     (if broker t then send_tasks broker ts (q @ [t]) else (False, q))"

text \<open>
  \<open>initiate_scan\<close>; the fresh \<open>uuid4\<close> string and the clock reading are arguments.
\<close>

definition initiate_scan ::
  "(Task \<Rightarrow> bool) \<Rightarrow> system \<Rightarrow> string \<Rightarrow> nat \<Rightarrow> string \<Rightarrow> string \<Rightarrow> int \<Rightarrow> string list \<Rightarrow> int \<Rightarrow>
   (error + string) \<times> system" where
  "initiate_scan broker s scan_id now repository_url branch framework_id scan_types priority =
     (let scan_result =
            \<lparr>sr_id = 0, sr_scan_id = scan_id, sr_framework_id = framework_id,
             sr_repository_url = repository_url, sr_branch = branch, sr_commit_hash = None,
             sr_scan_date = now, sr_status = ''pending'', sr_findings = Some [],
             sr_compliance_score = 0, sr_raw_output = Some []\<rparr>
      in case db_insert s scan_result of
           Inl e \<Rightarrow> (Inl e, s)
         | Inr s1 \<Rightarrow>
             (let pk = next_id (scan_results s);
                  tasks =
                    (if ''sast'' \<in> set scan_types
                     then [\<lparr>t_name = ''src.workers.sast_worker.run_sast_scan'',
                            t_args = [scan_id, repository_url, branch],
                            t_priority = priority, t_queue = ''sast''\<rparr>] else [])
                    @ (if ''dast'' \<in> set scan_types
                       then [\<lparr>t_name = ''src.workers.dast_worker.run_dast_scan'',
                              t_args = [scan_id, repository_url],
                              t_priority = priority, t_queue = ''dast''\<rparr>] else [])
                    @ (if ''sca'' \<in> set scan_types
                       then [\<lparr>t_name = ''src.workers.sca_worker.run_sca_scan'',
                              t_args = [scan_id, repository_url, branch],
                              t_priority = priority, t_queue = ''sca''\<rparr>] else [])
              in case send_tasks broker tasks (task_queue s1) of
                   (True, q) \<Rightarrow>
                     (Inr scan_id,
                      db_update (s1\<lparr>task_queue := q\<rparr>) pk (\<lambda>r. r\<lparr>sr_status := ''in_progress''\<rparr>))
                 | (False, q) \<Rightarrow>
                     (Inl BrokerError,
                      db_update (s1\<lparr>task_queue := q\<rparr>) pk (\<lambda>r. r\<lparr>sr_status := ''failed''\<rparr>))))"

text \<open>
  The tail of each worker ("Update scan results in database"), in its two database
  accesses: \<open>worker_read\<close> is the query, \<open>worker_write\<close> the assignments to the loaded
  object and the commit.

  \<open>findings\<close> and \<open>raw_output\<close> are plain JSON columns, so the session writes a column
  at the commit only when the attribute was assigned a value that differs from the loaded
  one. \<open>scan_result.findings or {}\<close> is a new dict when the loaded value is NULL or the
  empty dict: the worker's key is set in it, the attribute is assigned and the column is
  written with that one key. When the loaded dict is not empty, \<open>or\<close> yields the loaded
  dict itself: the key is set in place, the attribute is assigned the object it already
  holds, and the commit writes nothing. \<open>scan_result.raw_output[key] = ...\<close> raises
  \<open>TypeError\<close> on NULL and otherwise changes the loaded dict in place, with no
  assignment: \<open>raw_output\<close> is never written.
\<close>

definition worker_read :: "system \<Rightarrow> string \<Rightarrow> ScanResult option" where
  "worker_read s scan_id = query_first s scan_id"

definition worker_write ::
  "string \<Rightarrow> system \<Rightarrow> ScanResult option \<Rightarrow> json \<Rightarrow> json \<Rightarrow> error + system" where
  "worker_write key s loaded results raw =
     (case loaded of
        None \<Rightarrow> Inr s
      | Some scan_result \<Rightarrow>
          (case sr_raw_output scan_result of
             None \<Rightarrow> Inl TypeError
           | Some raw_output \<Rightarrow>
               (if sr_findings scan_result = None \<or> sr_findings scan_result = Some []
                then Inr (db_update s (sr_id scan_result)
                            (\<lambda>r. r\<lparr>sr_findings := Some (dict_set [] key results)\<rparr>))
                else Inr s)))"

definition store_results :: "string \<Rightarrow> system \<Rightarrow> string \<Rightarrow> json \<Rightarrow> json \<Rightarrow> error + system" where
  "store_results key s scan_id results raw =
     worker_write key s (worker_read s scan_id) results raw"

text \<open>
  \<open>run_sast_scan\<close> and \<open>run_dast_scan\<close>. What the scanners and the mapping of their
  output return is the argument \<open>scanned\<close>: an exception, or the result dict with the raw
  output stored beside it. An exception is logged and re-raised; nothing is committed.
  The DAST worker queries the model class under the name \<open>ScanResults\<close>; it is read as
  the class of the \<open>scan_results\<close> table.
\<close>

definition run_sast_scan ::
  "system \<Rightarrow> string \<Rightarrow> error + json \<times> json \<Rightarrow> (error + json) \<times> system" where
  "run_sast_scan s scan_id scanned =
     (case query_first s scan_id of
        None \<Rightarrow> (Inl ValueError, s)
      | Some _ \<Rightarrow>
          (case scanned of
             Inl e \<Rightarrow> (Inl e, s)
           | Inr (combined_results, raw) \<Rightarrow>
               (case store_results ''sast'' s scan_id combined_results raw of
                  Inl e \<Rightarrow> (Inl e, s)
                | Inr s' \<Rightarrow> (Inr combined_results, s'))))"

definition run_dast_scan ::
  "system \<Rightarrow> string \<Rightarrow> error + json \<times> json \<Rightarrow> (error + json) \<times> system" where
  "run_dast_scan s scan_id scanned =
     (case scanned of
        Inl e \<Rightarrow> (Inl e, s)
      | Inr (processed_results, raw) \<Rightarrow>
          (case store_results ''dast'' s scan_id processed_results raw of
             Inl e \<Rightarrow> (Inl e, s)
           | Inr s' \<Rightarrow> (Inr processed_results, s')))"

section \<open>Scenarios\<close>

text \<open>
  The keywords the \<open>if\<close>/\<open>elif\<close> chain of the Semgrep mapping tests, in its order.
\<close>

definition all_keywords :: "string list" where
  "all_keywords = [''sql'', ''injection'', ''auth'', ''password'', ''credential'', ''crypto'',
     ''encrypt'', ''hash'', ''access'', ''control'', ''permission'', ''xxe'', ''xml'',
     ''parse'', ''xss'', ''script'', ''html'', ''command'', ''exec'', ''os'', ''error'',
     ''exception'', ''logging'', ''default'', ''config'', ''setting'']"

text \<open>
  The classification of a Semgrep rule id as the specification words it: the keyword
  sets in their order, each with its check identifier, an identifier being classified by
  the first set one of whose keywords occurs in it as a substring, and left as it is when
  there is none.
\<close>

definition keyword_chain :: "(string list \<times> string) list" where
  "keyword_chain =
     [([''sql'', ''injection''], ''sql_injection''),
      ([''auth'', ''password'', ''credential''], ''weak_authentication''),
      ([''crypto'', ''encrypt'', ''hash''], ''weak_encryption''),
      ([''access'', ''control'', ''permission''], ''access_control_bypass''),
      ([''xxe'', ''xml'', ''parse''], ''injection''),
      ([''xss'', ''script'', ''html''], ''injection''),
      ([''command'', ''exec'', ''os''], ''os_command_injection''),
      ([''error'', ''exception'', ''logging''], ''unsafe_error_handling''),
      ([''default'', ''config'', ''setting''], ''insecure_defaults'')]"

definition first_keyword_match :: "(string list \<times> string) list \<Rightarrow> string \<Rightarrow> string" where
  "first_keyword_match chain s =
     (case find (\<lambda>(keywords, check_type). list_ex (\<lambda>k. sublist k s) keywords) chain of
        None \<Rightarrow> s
      | Some (keywords, check_type) \<Rightarrow> check_type)"

text \<open>The category ids of the three frameworks, as the registry lists them.\<close>

definition owasp_ids :: "string list" where
  "owasp_ids = [''A01'', ''A02'', ''A03'', ''A04'', ''A05'', ''A06'', ''A07'', ''A08'', ''A09'',
     ''A10'']"

definition cis_ids :: "string list" where
  "cis_ids = [''CIS-AS'', ''CIS-AC'']"

definition nist_ids :: "string list" where
  "nist_ids = [''NIST-IA'', ''NIST-AC'', ''NIST-AU'', ''NIST-SI'', ''NIST-SC'']"

text \<open>An entry of a category list with a given severity, and nothing else of interest.\<close>

definition entry_of_severity :: "string \<Rightarrow> Entry" where
  "entry_of_severity s =
     \<lparr>e_tool = ''bandit'',
      e_finding = \<lparr>f_type = None, f_rule_id = None, f_message = None, f_severity = None,
                    f_file = None, f_line = None\<rparr>,
      e_severity = s, e_file = None, e_line = None\<rparr>"

text \<open>
  The Bandit finding of the scoring scenario: the hardcoded-SQL test (B608), under the
  type name the lookup table knows, at severity critical.
\<close>

definition b608_finding :: Finding where
  "b608_finding =
     \<lparr>f_type = Some ''hardcoded_sql_string'', f_rule_id = None,
      f_message = Some ''Possible SQL injection vector through string-based query construction'',
      f_severity = Some ''critical'', f_file = Some ''src/api/endpoints.py'',
      f_line = Some 105\<rparr>"

text \<open>
  A database with three frameworks and no scan, and the state after \<open>initiate_scan\<close> on
  it for framework 1 with a broker that takes every task.
\<close>

definition example_system :: system where
  "example_system = \<lparr>frameworks = [1, 2, 3], scan_results = [], task_queue = []\<rparr>"

definition example_scan :: "string list \<Rightarrow> system" where
  "example_scan scan_types =
     snd (initiate_scan (\<lambda>t. True) example_system ''scan-1'' 0
            ''https://example.org/repo.git'' ''main'' 1 scan_types 5)"




section \<open>Properties of the category scorer\<close>

lemma py_round2_of_int: "py_round2 (of_int n) = of_int n"
proof -
  have y: "(of_int n :: rat) * 100 = of_int (n * 100)" by simp
  have f: "\<lfloor>(of_int (n * 100) :: rat)\<rfloor> = n * 100" by (rule floor_of_int)
  have "py_round2 (of_int n) = of_int (n * 100) / 100"
    unfolding py_round2_def Let_def y f by simp
  also have "\<dots> = of_int n" by simp
  finally show ?thesis .
qed

lemma clamp_is_int:
  "max 0 (min 100 (100 - of_nat c * 25 - of_nat h * 15 - of_nat m * 8 - of_nat l * 3 :: rat))
   = of_int (max 0 (min 100 (100 - 25 * int c - 15 * int h - 8 * int m - 3 * int l)))"
  by (simp add: of_int_max of_int_min)

lemma score_category_score:
  "sd_score (score_category cd fs) =
     Some (of_int (max 0 (min 100 (100 - 25 * int (count_severity ''CRITICAL'' fs)
        - 15 * int (count_severity ''HIGH'' fs) - 8 * int (count_severity ''MEDIUM'' fs)
        - 3 * int (count_severity ''LOW'' fs)))))"
  unfolding score_category_def Let_def
  by (simp only: clamp_is_int py_round2_of_int) simp

lemma map_of_dict_set: "map_of (dict_set d k v) = (map_of d)(k \<mapsto> v)"
  by (induction d) (auto simp: fun_eq_iff)

lemma dict_set_keys: "fst ` set (dict_set d k v) = insert k (fst ` set d)"
proof -
  have "fst ` set (dict_set d k v) = dom (map_of (dict_set d k v))"
    by (simp add: dom_map_of_conv_image_fst)
  also have "\<dots> = insert k (dom (map_of d))" by (simp add: map_of_dict_set)
  also have "\<dots> = insert k (fst ` set d)" by (simp add: dom_map_of_conv_image_fst)
  finally show ?thesis .
qed

lemma category_scores_loop_keys:
  "set (map fst (category_scores_loop cats cf acc)) =
     set (map fst acc) \<union> set (map (\<lambda>(k, cd). cd_id cd) cats)"
  by (induction cats cf acc rule: category_scores_loop.induct) (auto simp: dict_set_keys)

lemma dict_set_fresh: "k \<notin> set (map fst d) \<Longrightarrow> dict_set d k v = d @ [(k, v)]"
  by (induction d) auto

lemma category_scores_loop_distinct:
  "distinct (map fst acc @ map (\<lambda>(k, cd). cd_id cd) cats) \<Longrightarrow>
   category_scores_loop cats cf acc =
     acc @ map (\<lambda>(k, cd). (cd_id cd, score_category cd (dict_get cf (cd_id cd) []))) cats"
proof (induction cats cf acc rule: category_scores_loop.induct)
  case (1 cf acc)
  then show ?case by simp
next
  case (2 k cd rest cf acc)
  have fresh: "cd_id cd \<notin> set (map fst acc)" using 2(2) by auto
  have "distinct (map fst (dict_set acc (cd_id cd) (score_category cd (dict_get cf (cd_id cd) [])))
          @ map (\<lambda>(k, cd). cd_id cd) rest)"
    using 2(2) by (simp add: dict_set_fresh[OF fresh]) 
  from 2(1)[OF this] show ?case by (simp add: dict_set_fresh[OF fresh])
qed



lemma framework_ids_distinct:
  "distinct (map (\<lambda>(k, cd). cd_id cd) (get_categories_for_framework fw))"
  by (simp add: get_categories_for_framework_def Let_def OWASP_CATEGORIES_def CIS_CATEGORIES_def NIST_CATEGORIES_def)

lemma calculate_category_scores_eq:
  "calculate_category_scores fw cf =
     map (\<lambda>(k, cd). (cd_id cd, score_category cd (dict_get cf (cd_id cd) [])))
       (get_categories_for_framework fw)"
  unfolding calculate_category_scores_def
  using category_scores_loop_distinct[of "[]" "get_categories_for_framework fw" cf]
    framework_ids_distinct[of fw] by simp

lemma count_severity_filter:
  "count_severity s (filter P fs) = length (filter (\<lambda>f. e_severity f = s \<and> P f) fs)"
  by (simp add: count_severity_def conj_commute)

lemma count_severity_drop_unknown:
  "s \<noteq> ''UNKNOWN'' \<Longrightarrow>
   count_severity s (filter (\<lambda>f. e_severity f \<noteq> ''UNKNOWN'') fs) = count_severity s fs"
  unfolding count_severity_def
  by (induction fs) auto

lemma total_issues_four:
  "count_severity ''CRITICAL'' fs + count_severity ''HIGH'' fs + count_severity ''MEDIUM'' fs
     + count_severity ''LOW'' fs
   = length (filter (\<lambda>f. e_severity f \<in> {''CRITICAL'', ''HIGH'', ''MEDIUM'', ''LOW''}) fs)"
  unfolding count_severity_def
  by (induction fs) auto

lemma map_of_filter_keys:
  "map_of (filter (\<lambda>(k, v). k \<in> K) d) k = (if k \<in> K then map_of d k else None)"
  by (induction d) auto

lemma dict_get_filter_keys:
  "k \<in> K \<Longrightarrow> dict_get (filter (\<lambda>(k, v). k \<in> K) d) k dflt = dict_get d k dflt"
  by (simp add: dict_get_def map_of_filter_keys)

lemma map_of_map_SomeD:
  "map_of (map (\<lambda>x. (f x, g x)) xs) k = Some v \<Longrightarrow> \<exists>x \<in> set xs. f x = k \<and> v = g x"
  by (induction xs) (auto split: if_splits)

lemma score_category_empty:
  "sd_score (score_category cd []) = Some 100" "sd_total_issues (score_category cd []) = 0"
  by (simp_all add: score_category_score count_severity_def) (simp add: score_category_def count_severity_def)

lemma upper_recognised:
  "upper fw = ''OWASP'' \<Longrightarrow> get_categories_for_framework fw = OWASP_CATEGORIES"
  "upper fw = ''CIS'' \<Longrightarrow> get_categories_for_framework fw = CIS_CATEGORIES"
  "upper fw = ''NIST'' \<Longrightarrow> get_categories_for_framework fw = NIST_CATEGORIES"
  by (simp_all add: get_categories_for_framework_def)

lemma category_scores_ids:
  "map fst (calculate_category_scores fw cf) =
     map (\<lambda>(k, cd). cd_id cd) (get_categories_for_framework fw)"
  by (simp add: calculate_category_scores_eq comp_def case_prod_unfold)

text \<open>
  C2. For every category and every findings list the score of the category is
  \<open>clamp(100 - 25 critical - 15 high - 8 medium - 3 low, 0, 100)\<close>, the four numbers
  being the numbers of findings in the list with that severity; a category with no
  findings scores exactly 100 with \<open>total_issues = 0\<close>. \<open>calculate_category_scores\<close>
  computes exactly this for each category of the framework, from the findings filed under
  the category's id: on OWASP with no findings every category scores 100, and a list of
  one critical, one high, one medium, two low and one unknown finding under A03 scores
  46, five critical findings score 0.
\<close>

theorem score_category_deduction:
  "sd_score (score_category category_def findings) =
     Some (of_int (max 0 (min 100
       (100 - 25 * int (length (filter (\<lambda>f. e_severity f = ''CRITICAL'') findings))
            - 15 * int (length (filter (\<lambda>f. e_severity f = ''HIGH'') findings))
            - 8 * int (length (filter (\<lambda>f. e_severity f = ''MEDIUM'') findings))
            - 3 * int (length (filter (\<lambda>f. e_severity f = ''LOW'') findings))))))
   \<and> sd_critical (score_category category_def findings)
       = length (filter (\<lambda>f. e_severity f = ''CRITICAL'') findings)
   \<and> sd_high (score_category category_def findings)
       = length (filter (\<lambda>f. e_severity f = ''HIGH'') findings)
   \<and> sd_medium (score_category category_def findings)
       = length (filter (\<lambda>f. e_severity f = ''MEDIUM'') findings)
   \<and> sd_low (score_category category_def findings)
       = length (filter (\<lambda>f. e_severity f = ''LOW'') findings)
   \<and> sd_score (score_category category_def []) = Some 100
   \<and> sd_total_issues (score_category category_def []) = 0
   \<and> calculate_category_scores framework_name categorized_findings =
       map (\<lambda>(category_id, category_def).
              (cd_id category_def,
               score_category category_def
                 (case map_of categorized_findings (cd_id category_def) of
                    None \<Rightarrow> [] | Some fs \<Rightarrow> fs)))
         (get_categories_for_framework framework_name)
   \<and> map (\<lambda>(category_id, score_data).
             (category_id, sd_score score_data, sd_total_issues score_data))
       (calculate_category_scores ''OWASP'' [])
     = [(''A01'', Some 100, 0), (''A02'', Some 100, 0), (''A03'', Some 100, 0), (''A04'', Some 100, 0), (''A05'', Some 100, 0), (''A06'', Some 100, 0), (''A07'', Some 100, 0), (''A08'', Some 100, 0), (''A09'', Some 100, 0), (''A10'', Some 100, 0)]
   \<and> map (\<lambda>(category_id, score_data).
             (category_id, sd_score score_data, sd_critical score_data, sd_high score_data,
              sd_medium score_data, sd_low score_data, sd_total_issues score_data))
       (filter (\<lambda>(category_id, score_data). category_id = ''A03'')
          (calculate_category_scores ''owasp''
             [(''A03'', map entry_of_severity
                 [''CRITICAL'', ''HIGH'', ''MEDIUM'', ''LOW'', ''LOW'', ''UNKNOWN''])]))
     = [(''A03'', Some 46, 1, 1, 1, 2, 5)]
   \<and> map (\<lambda>(category_id, score_data). (category_id, sd_score score_data))
       (filter (\<lambda>(category_id, score_data). category_id = ''CIS-AC'')
          (calculate_category_scores ''Cis''
             [(''CIS-AC'', map entry_of_severity
                 [''CRITICAL'', ''CRITICAL'', ''CRITICAL'', ''CRITICAL'', ''CRITICAL''])]))
     = [(''CIS-AC'', Some 0)]"
proof -
  have e: "calculate_category_scores framework_name categorized_findings =
       map (\<lambda>(category_id, category_def).
              (cd_id category_def,
               score_category category_def
                 (case map_of categorized_findings (cd_id category_def) of
                    None \<Rightarrow> [] | Some fs \<Rightarrow> fs)))
         (get_categories_for_framework framework_name)"
    using calculate_category_scores_eq[of framework_name categorized_findings]
    by (simp add: dict_get_def)
  have p1: "map (\<lambda>(category_id, score_data).
             (category_id, sd_score score_data, sd_total_issues score_data))
       (calculate_category_scores ''OWASP'' [])
     = [(''A01'', Some 100, 0), (''A02'', Some 100, 0), (''A03'', Some 100, 0), (''A04'', Some 100, 0), (''A05'', Some 100, 0), (''A06'', Some 100, 0), (''A07'', Some 100, 0), (''A08'', Some 100, 0), (''A09'', Some 100, 0), (''A10'', Some 100, 0)]"
    by code_simp
  have p2: "map (\<lambda>(category_id, score_data).
             (category_id, sd_score score_data, sd_critical score_data, sd_high score_data,
              sd_medium score_data, sd_low score_data, sd_total_issues score_data))
       (filter (\<lambda>(category_id, score_data). category_id = ''A03'')
          (calculate_category_scores ''owasp''
             [(''A03'', map entry_of_severity
                 [''CRITICAL'', ''HIGH'', ''MEDIUM'', ''LOW'', ''LOW'', ''UNKNOWN''])]))
     = [(''A03'', Some 46, 1, 1, 1, 2, 5)]"
    by code_simp
  have p3: "map (\<lambda>(category_id, score_data). (category_id, sd_score score_data))
       (filter (\<lambda>(category_id, score_data). category_id = ''CIS-AC'')
          (calculate_category_scores ''Cis''
             [(''CIS-AC'', map entry_of_severity
                 [''CRITICAL'', ''CRITICAL'', ''CRITICAL'', ''CRITICAL'', ''CRITICAL''])]))
     = [(''CIS-AC'', Some 0)]"
    by code_simp
  have s: "sd_score (score_category category_def findings) =
     Some (of_int (max 0 (min 100
       (100 - 25 * int (length (filter (\<lambda>f. e_severity f = ''CRITICAL'') findings))
            - 15 * int (length (filter (\<lambda>f. e_severity f = ''HIGH'') findings))
            - 8 * int (length (filter (\<lambda>f. e_severity f = ''MEDIUM'') findings))
            - 3 * int (length (filter (\<lambda>f. e_severity f = ''LOW'') findings))))))"
    using score_category_score[of category_def findings] by (simp only: count_severity_def)
  have c: "sd_critical (score_category category_def findings)
       = length (filter (\<lambda>f. e_severity f = ''CRITICAL'') findings)"
    "sd_high (score_category category_def findings)
       = length (filter (\<lambda>f. e_severity f = ''HIGH'') findings)"
    "sd_medium (score_category category_def findings)
       = length (filter (\<lambda>f. e_severity f = ''MEDIUM'') findings)"
    "sd_low (score_category category_def findings)
       = length (filter (\<lambda>f. e_severity f = ''LOW'') findings)"
    by (simp_all add: score_category_def Let_def count_severity_def)
  from s c score_category_empty[of category_def] e p1 p2 p3 show ?thesis by (intro conjI)
qed

text \<open>
  One \<open>UNKNOWN\<close> finding filed under \<open>A03\<close>: the category list holds one finding, and
  \<open>total_issues\<close> is 0.
\<close>

theorem unknown_severity_counterexample:
  "map (\<lambda>(category_id, score_data). (category_id, sd_total_issues score_data))
     (filter (\<lambda>(category_id, score_data). category_id = ''A03'')
        (calculate_category_scores ''OWASP''
           [(''A03'', [\<lparr>e_tool = ''bandit'',
                        e_finding = \<lparr>f_type = Some ''hardcoded_sql_string'', f_rule_id = None,
                                     f_message = None, f_severity = Some ''unknown'',
                                     f_file = None, f_line = None\<rparr>,
                        e_severity = ''UNKNOWN'', e_file = None, e_line = None\<rparr>])]))
   = [(''A03'', 0)]"
  by code_simp

text \<open>
  C4, as the code has it. A finding with severity \<open>UNKNOWN\<close> contributes nothing to the
  result of \<open>score_category\<close>, neither to the deduction nor to \<open>total_issues\<close>: the
  result is that of the list without such findings, and \<open>total_issues\<close> is the number
  of findings whose severity is one of \<open>CRITICAL\<close>, \<open>HIGH\<close>, \<open>MEDIUM\<close>, \<open>LOW\<close>.
\<close>

theorem unknown_severity_not_counted:
  "score_category category_def findings =
     score_category category_def (filter (\<lambda>f. e_severity f \<noteq> ''UNKNOWN'') findings)
   \<and> sd_total_issues (score_category category_def findings) =
       length (filter (\<lambda>f. e_severity f \<in> {''CRITICAL'', ''HIGH'', ''MEDIUM'', ''LOW''})
                 findings)"
proof
  show "score_category category_def findings =
     score_category category_def (filter (\<lambda>f. e_severity f \<noteq> ''UNKNOWN'') findings)"
    unfolding score_category_def by (simp add: count_severity_drop_unknown)
  show "sd_total_issues (score_category category_def findings) =
       length (filter (\<lambda>f. e_severity f \<in> {''CRITICAL'', ''HIGH'', ''MEDIUM'', ''LOW''})
                 findings)"
    using total_issues_four[of findings] by (simp add: score_category_def Let_def)
qed

text \<open>
  C9. The keys of the map \<open>calculate_category_scores\<close> returns are exactly the category
  ids of the framework, in the registry's order: \<open>A01\<close> to \<open>A10\<close> for a name that
  upper-cases to OWASP, \<open>CIS-AS\<close> and \<open>CIS-AC\<close> for CIS, the five \<open>NIST-\<close> ids for NIST.
  Every category of the framework receives the entry computed from the findings filed
  under its id, with score 100 and no issues when there are none, and the keys of the
  categorized findings that are no category id of the framework are ignored, the result
  being that of the input without them.
\<close>

theorem category_scores_keys:
  "(upper framework_name = ''OWASP'' \<longrightarrow>
      map fst (calculate_category_scores framework_name categorized_findings) = owasp_ids
      \<and> calculate_category_scores framework_name
           (filter (\<lambda>(k, v). k \<in> set owasp_ids) categorized_findings)
          = calculate_category_scores framework_name categorized_findings)
   \<and> (upper framework_name = ''CIS'' \<longrightarrow>
      map fst (calculate_category_scores framework_name categorized_findings) = cis_ids
      \<and> calculate_category_scores framework_name
           (filter (\<lambda>(k, v). k \<in> set cis_ids) categorized_findings)
          = calculate_category_scores framework_name categorized_findings)
   \<and> (upper framework_name = ''NIST'' \<longrightarrow>
      map fst (calculate_category_scores framework_name categorized_findings) = nist_ids
      \<and> calculate_category_scores framework_name
           (filter (\<lambda>(k, v). k \<in> set nist_ids) categorized_findings)
          = calculate_category_scores framework_name categorized_findings)
   \<and> (k \<in> set (map fst (calculate_category_scores framework_name categorized_findings))
        \<and> (case map_of categorized_findings k of None \<Rightarrow> [] | Some fs \<Rightarrow> fs) = [] \<longrightarrow>
      map_option (\<lambda>score_data. (sd_score score_data, sd_total_issues score_data))
        (map_of (calculate_category_scores framework_name categorized_findings) k)
        = Some (Some 100, 0))
   \<and> set (map fst (calculate_category_scores framework_name categorized_findings)) =
       set (map (\<lambda>(category_id, category_def). cd_id category_def)
              (get_categories_for_framework framework_name))
   \<and> calculate_category_scores framework_name categorized_findings =
       map (\<lambda>(category_id, category_def).
              (cd_id category_def,
               score_category category_def
                 (case map_of categorized_findings (cd_id category_def) of
                    None \<Rightarrow> [] | Some fs \<Rightarrow> fs)))
         (get_categories_for_framework framework_name)"
proof -
  let ?cats = "get_categories_for_framework framework_name"
  let ?res = "calculate_category_scores framework_name categorized_findings"
  have ids: "map fst ?res = map (\<lambda>(k, cd). cd_id cd) ?cats"
    by (rule category_scores_ids)
  have ignored: "calculate_category_scores framework_name
         (filter (\<lambda>(k, v). k \<in> set (map (\<lambda>(k, cd). cd_id cd) ?cats)) categorized_findings)
       = ?res"
  proof -
    let ?K = "set (map (\<lambda>(k, cd). cd_id cd) ?cats)"
    have "map (\<lambda>(category_id, category_def).
              (cd_id category_def,
               score_category category_def
                 (dict_get (filter (\<lambda>(k, v). k \<in> ?K) categorized_findings)
                    (cd_id category_def) [])))
          ?cats
        = map (\<lambda>(category_id, category_def).
              (cd_id category_def,
               score_category category_def
                 (dict_get categorized_findings (cd_id category_def) [])))
          ?cats"
    proof (rule map_cong[OF refl])
      fix x assume x: "x \<in> set ?cats"
      obtain k cd where kc: "x = (k, cd)" by (cases x)
      have "cd_id cd \<in> ?K" using x kc by force
      then show "(case x of (category_id, category_def) \<Rightarrow>
              (cd_id category_def,
               score_category category_def
                 (dict_get (filter (\<lambda>(k, v). k \<in> ?K) categorized_findings)
                    (cd_id category_def) [])))
        = (case x of (category_id, category_def) \<Rightarrow>
              (cd_id category_def,
               score_category category_def
                 (dict_get categorized_findings (cd_id category_def) [])))"
        unfolding kc by (simp only: prod.case dict_get_filter_keys)
    qed
    then show ?thesis by (simp only: calculate_category_scores_eq)
  qed
  have o_ids: "map (\<lambda>(k, cd). cd_id cd) OWASP_CATEGORIES = owasp_ids"
    by (simp add: OWASP_CATEGORIES_def owasp_ids_def)
  have c_ids: "map (\<lambda>(k, cd). cd_id cd) CIS_CATEGORIES = cis_ids"
    by (simp add: CIS_CATEGORIES_def cis_ids_def)
  have n_ids: "map (\<lambda>(k, cd). cd_id cd) NIST_CATEGORIES = nist_ids"
    by (simp add: NIST_CATEGORIES_def nist_ids_def)
  have owasp: "upper framework_name = ''OWASP'' \<longrightarrow>
      map fst ?res = owasp_ids
      \<and> calculate_category_scores framework_name
           (filter (\<lambda>(k, v). k \<in> set owasp_ids) categorized_findings) = ?res"
  proof
    assume u: "upper framework_name = ''OWASP''"
    have l: "map (\<lambda>(k, cd). cd_id cd) ?cats = owasp_ids"
      by (simp only: upper_recognised(1)[OF u] o_ids)
    from ids ignored show "map fst ?res = owasp_ids
      \<and> calculate_category_scores framework_name
           (filter (\<lambda>(k, v). k \<in> set owasp_ids) categorized_findings) = ?res"
      unfolding l by (rule conjI)
  qed
  have cis: "upper framework_name = ''CIS'' \<longrightarrow>
      map fst ?res = cis_ids
      \<and> calculate_category_scores framework_name
           (filter (\<lambda>(k, v). k \<in> set cis_ids) categorized_findings) = ?res"
  proof
    assume u: "upper framework_name = ''CIS''"
    have l: "map (\<lambda>(k, cd). cd_id cd) ?cats = cis_ids"
      by (simp only: upper_recognised(2)[OF u] c_ids)
    from ids ignored show "map fst ?res = cis_ids
      \<and> calculate_category_scores framework_name
           (filter (\<lambda>(k, v). k \<in> set cis_ids) categorized_findings) = ?res"
      unfolding l by (rule conjI)
  qed
  have nist: "upper framework_name = ''NIST'' \<longrightarrow>
      map fst ?res = nist_ids
      \<and> calculate_category_scores framework_name
           (filter (\<lambda>(k, v). k \<in> set nist_ids) categorized_findings) = ?res"
  proof
    assume u: "upper framework_name = ''NIST''"
    have l: "map (\<lambda>(k, cd). cd_id cd) ?cats = nist_ids"
      by (simp only: upper_recognised(3)[OF u] n_ids)
    from ids ignored show "map fst ?res = nist_ids
      \<and> calculate_category_scores framework_name
           (filter (\<lambda>(k, v). k \<in> set nist_ids) categorized_findings) = ?res"
      unfolding l by (rule conjI)
  qed
  have hundred: "k \<in> set (map fst ?res)
        \<and> (case map_of categorized_findings k of None \<Rightarrow> [] | Some fs \<Rightarrow> fs) = [] \<longrightarrow>
      map_option (\<lambda>score_data. (sd_score score_data, sd_total_issues score_data))
        (map_of ?res k) = Some (Some 100, 0)"
  proof (intro impI, elim conjE)
    assume k: "k \<in> set (map fst ?res)"
      and none: "(case map_of categorized_findings k of None \<Rightarrow> [] | Some fs \<Rightarrow> fs) = []"
    from k obtain v where v: "map_of ?res k = Some v"
      by (cases "map_of ?res k") (auto simp: map_of_eq_None_iff)
    have res: "?res = map (\<lambda>x. (cd_id (snd x),
        score_category (snd x) (dict_get categorized_findings (cd_id (snd x)) []))) ?cats"
      by (simp add: calculate_category_scores_eq case_prod_unfold)
    have v': "map_of (map (\<lambda>x. (cd_id (snd x),
        score_category (snd x) (dict_get categorized_findings (cd_id (snd x)) []))) ?cats) k
        = Some v"
      using v by (simp only: res)
    from map_of_map_SomeD[OF v']
    obtain x :: "string \<times> CategoryDef" where "cd_id (snd x) = k"
      and "v = score_category (snd x) (dict_get categorized_findings (cd_id (snd x)) [])"
      by blast
    with none have "v = score_category (snd x) []" by (simp add: dict_get_def)
    with v show "map_option (\<lambda>score_data. (sd_score score_data, sd_total_issues score_data))
        (map_of ?res k) = Some (Some 100, 0)"
      by (simp add: score_category_empty)
  qed
  have keys: "set (map fst ?res) = set (map (\<lambda>(category_id, category_def). cd_id category_def) ?cats)"
    using ids by simp
  have eq: "?res = map (\<lambda>(category_id, category_def).
              (cd_id category_def,
               score_category category_def
                 (case map_of categorized_findings (cd_id category_def) of
                    None \<Rightarrow> [] | Some fs \<Rightarrow> fs)))
         ?cats"
    using calculate_category_scores_eq[of framework_name categorized_findings]
    by (simp add: dict_get_def)
  from owasp cis nist hundred keys eq show ?thesis by (intro conjI)
qed

theorem category_scores_keys_witness:
  "upper ''owasp'' = ''OWASP''
   \<and> map fst (calculate_category_scores ''owasp''
        [(''ZZ99'', [entry_of_severity ''CRITICAL'']), (''A03'', [entry_of_severity ''HIGH''])])
     = [''A01'', ''A02'', ''A03'', ''A04'', ''A05'', ''A06'', ''A07'', ''A08'', ''A09'', ''A10'']
   \<and> calculate_category_scores ''owasp'' [(''A03'', [entry_of_severity ''HIGH''])]
     = calculate_category_scores ''owasp''
        [(''ZZ99'', [entry_of_severity ''CRITICAL'']), (''A03'', [entry_of_severity ''HIGH''])]
   \<and> upper ''cis'' = ''CIS''
   \<and> map fst (calculate_category_scores ''cis'' []) = [''CIS-AS'', ''CIS-AC'']
   \<and> upper ''Nist'' = ''NIST''
   \<and> map fst (calculate_category_scores ''Nist'' [])
     = [''NIST-IA'', ''NIST-AC'', ''NIST-AU'', ''NIST-SI'', ''NIST-SC'']
   \<and> map_option (\<lambda>score_data. (sd_score score_data, sd_total_issues score_data))
        (map_of (calculate_category_scores ''owasp''
           [(''ZZ99'', [entry_of_severity ''CRITICAL'']), (''A03'', [entry_of_severity ''HIGH''])])
           ''A01'')
     = Some (Some 100, 0)"
proof -
  let ?cf = "[(''ZZ99'', [entry_of_severity ''CRITICAL'']), (''A03'', [entry_of_severity ''HIGH''])]"
  have u1: "upper ''owasp'' = ''OWASP''" and u2: "upper ''cis'' = ''CIS''"
    and u3: "upper ''Nist'' = ''NIST''" by code_simp+
  have f: "filter (\<lambda>(k, v). k \<in> set owasp_ids) ?cf = [(''A03'', [entry_of_severity ''HIGH''])]"
    by (simp add: owasp_ids_def)
  have n: "(case map_of ?cf ''A01'' of None \<Rightarrow> [] | Some fs \<Rightarrow> fs) = []" by simp
  note t1 = category_scores_keys[of "''owasp''" ?cf "''A01''"]
  note t2 = category_scores_keys[of "''cis''" "[]" "''A01''"]
  note t3 = category_scores_keys[of "''Nist''" "[]" "''A01''"]
  from t1 u1 have k1: "map fst (calculate_category_scores ''owasp'' ?cf) = owasp_ids"
    and i1: "calculate_category_scores ''owasp'' (filter (\<lambda>(k, v). k \<in> set owasp_ids) ?cf)
          = calculate_category_scores ''owasp'' ?cf" by blast+
  from k1 have m: "''A01'' \<in> set (map fst (calculate_category_scores ''owasp'' ?cf))"
    by (simp add: owasp_ids_def)
  from t1 m n have h: "map_option (\<lambda>score_data. (sd_score score_data, sd_total_issues score_data))
        (map_of (calculate_category_scores ''owasp'' ?cf) ''A01'') = Some (Some 100, 0)"
    by blast
  from t2 u2 have k2: "map fst (calculate_category_scores ''cis'' []) = cis_ids" by blast
  from t3 u3 have k3: "map fst (calculate_category_scores ''Nist'' []) = nist_ids" by blast
  from u1 u2 u3 k1 k2 k3 i1 h show ?thesis
    by (simp add: owasp_ids_def cis_ids_def nist_ids_def f)
qed



section \<open>Properties of the overall score\<close>

text \<open>
  The float model: powers of two, the binary exponent, and that rounding to a double keeps
  a sum of weights positive.
\<close>

lemma fl_zero: "fl 0 = 0"
  by (simp add: fl_def)

lemma pow2_powi: "pow2 e = 2 powi e"
  by (simp add: pow2_def power_int_def field_simps)

lemma pow2_pos: "0 < pow2 e"
  by (simp add: pow2_powi)

lemma pow2_mono: "a \<le> b \<Longrightarrow> pow2 a \<le> pow2 b"
  unfolding pow2_powi by (rule power_int_increasing) simp_all

lemma pow2_add: "pow2 (a + b) = pow2 a * pow2 b"
  unfolding pow2_powi by (rule power_int_add) simp

lemma pow2_nat: "0 \<le> e \<Longrightarrow> pow2 e = 2 ^ nat e"
  by (simp add: pow2_def)

lemma ilog2_lower:
  assumes "0 < x"
  shows "pow2 (ilog2 x) \<le> x"
proof -
  obtain p q where pq: "quotient_of x = (p, q)" by (cases "quotient_of x")
  from quotient_of_denom_pos[OF pq] have q: "0 < q" .
  from quotient_of_div[OF pq] have x: "x = of_int p / of_int q" .
  from assms x q have p: "0 < p" by (simp add: zero_less_divide_iff)
  have ax: "\<bar>x\<bar> = x" using assms by simp
  let ?d = "bitlen p - bitlen q"
  show ?thesis
  proof (cases "pow2 ?d \<le> x")
    case True
    then show ?thesis by (simp add: ilog2_def ax pq Let_def)
  next
    case False
    then have il: "ilog2 x = ?d - 1" by (simp add: ilog2_def ax pq Let_def)
    from bitlen_bounds[OF p] have lp: "2 ^ nat (bitlen p - 1) \<le> p" by simp
    from bitlen_bounds[OF q] have uq: "q < 2 ^ nat (bitlen q)" by simp
    have bp: "1 \<le> bitlen p" using p by (simp add: bitlen_alt_def)
    have "pow2 (?d - 1) * of_int q \<le> pow2 (?d - 1) * 2 ^ nat (bitlen q)"
    proof (rule mult_left_mono)
      from uq have "q \<le> 2 ^ nat (bitlen q)" by simp
      then have "(of_int q :: rat) \<le> of_int (2 ^ nat (bitlen q))" by (simp only: of_int_le_iff)
      then show "(of_int q :: rat) \<le> 2 ^ nat (bitlen q)" by simp
      show "0 \<le> pow2 (?d - 1)" using pow2_pos[of "?d - 1"] by simp
    qed
    also have "(2::rat) ^ nat (bitlen q) = pow2 (bitlen q)"
      by (simp add: pow2_nat bitlen_nonneg)
    also have "pow2 (?d - 1) * pow2 (bitlen q) = pow2 (bitlen p - 1)"
      by (simp add: pow2_add[symmetric])
    also have "\<dots> = 2 ^ nat (bitlen p - 1)" using bp by (simp add: pow2_nat)
    also have "\<dots> \<le> of_int p"
    proof -
      from lp have "(of_int (2 ^ nat (bitlen p - 1)) :: rat) \<le> of_int p"
        by (simp only: of_int_le_iff)
      then show ?thesis by simp
    qed
    finally have "pow2 (?d - 1) * of_int q \<le> of_int p" .
    then have "pow2 (?d - 1) \<le> of_int p / of_int q"
      using q by (simp add: pos_le_divide_eq)
    with x have "pow2 (?d - 1) \<le> x" by simp
    then show ?thesis by (simp only: il)
  qed
qed

lemma round_half_even_ge_floor: "\<lfloor>y\<rfloor> \<le> round_half_even y"
  by (simp add: round_half_even_def Let_def)

lemma fl_pos:
  assumes "0 < x" and "pow2 (- 1074) \<le> x"
  shows "0 < fl x"
proof -
  let ?q = "pow2 (max (ilog2 x) (- 1022) - 52)"
  have qpos: "0 < ?q" by (rule pow2_pos)
  have qle: "?q \<le> x"
  proof (cases "- 1022 \<le> ilog2 x")
    case True
    then have "?q = pow2 (ilog2 x - 52)" by (simp add: max_def)
    also have "\<dots> \<le> pow2 (ilog2 x)" by (rule pow2_mono) simp
    also have "\<dots> \<le> x" by (rule ilog2_lower[OF assms(1)])
    finally show ?thesis .
  next
    case False
    then have "?q = pow2 (- 1074)" by (simp add: max_def)
    with assms(2) show ?thesis by simp
  qed
  then have "1 \<le> x / ?q" using qpos by (simp add: pos_le_divide_eq)
  then have f1: "(1::int) \<le> \<lfloor>x / ?q\<rfloor>" by (simp add: le_floor_iff)
  from f1 round_half_even_ge_floor[of "x / ?q"] have "1 \<le> round_half_even (x / ?q)"
    by (rule order_trans)
  then have "(0::rat) < of_int (round_half_even (x / ?q))" by simp
  from this qpos have "0 < of_int (round_half_even (x / ?q)) * ?q" by (rule mult_pos_pos)
  with assms(1) show ?thesis by (simp add: fl_def Let_def)
qed

lemma tiny_le_eighth: "pow2 (- 1074) \<le> pow2 (- 3)"
  by (rule pow2_mono) simp

lemma fl_pos_eighth: "pow2 (- 3) \<le> x \<Longrightarrow> 0 < fl x"
proof -
  assume a: "pow2 (- 3) \<le> x"
  from pow2_pos[of "- 3"] a have "0 < x" by simp
  moreover from tiny_le_eighth a have "pow2 (- 1074) \<le> x" by simp
  ultimately show ?thesis by (rule fl_pos)
qed

lemma float_weights_ge:
  "pow2 (- 3) \<le> fl (50 / 100)" "pow2 (- 3) \<le> fl (35 / 100)" "pow2 (- 3) \<le> fl (15 / 100)"
  by code_simp+

text \<open>
  The loop of \<open>calculate_overall_score\<close> on entries it can read, and on an entry on
  which it raises.
\<close>

lemma read_weight_ge: "pow2 (- 3) \<le> read_weight d"
proof (cases "map_of d ''priority'' = Some (PStr ''High'')")
  case True
  then show ?thesis by (simp only: read_weight_def if_True float_weights_ge simp_thms)
next
  case nh: False
  show ?thesis
  proof (cases "map_of d ''priority'' = Some (PStr ''Low'')")
    case True
    with nh show ?thesis by (simp only: read_weight_def if_False if_True float_weights_ge simp_thms)
  next
    case False
    with nh show ?thesis by (simp only: read_weight_def if_False float_weights_ge simp_thms)
  qed
qed

lemma weights_get_readable:
  assumes "case map_of d ''priority'' of None \<Rightarrow> True | Some v \<Rightarrow> hashable v"
  shows "weights_get (dict_get d ''priority'' (PStr ''Medium'')) = Inr (read_weight d)"
proof (cases "map_of d ''priority''")
  case None
  then show ?thesis
    by (simp add: dict_get_def weights_get_def read_weight_def priority_weights_def)
next
  case (Some v)
  with assms have h: "hashable v" by simp
  show ?thesis
  proof (cases v)
    case (PStr p)
    with Some show ?thesis
      by (simp add: dict_get_def weights_get_def read_weight_def priority_weights_def)
  qed (use Some h in \<open>simp_all add: dict_get_def weights_get_def read_weight_def hashable_def\<close>)
qed

lemma times_weight_readable:
  assumes "case map_of d ''score'' of None \<Rightarrow> True | Some v \<Rightarrow> is_number v"
  shows "times_weight (dict_get d ''score'' (PInt 0)) w = Inr (fl (read_score d * w))"
proof (cases "map_of d ''score''")
  case None
  then show ?thesis by (simp add: dict_get_def times_weight_def read_score_def fl_zero)
next
  case (Some v)
  with assms have "is_number v" by simp
  with Some show ?thesis
    by (cases v) (simp_all add: dict_get_def times_weight_def read_score_def number_value_def
        is_number_def)
qed

lemma overall_loop_readable:
  assumes "\<forall>(k, d) \<in> set cs. \<not> raises_type_error d"
  shows "overall_loop cs (ws, tw) =
     Inr (foldl (\<lambda>acc (s, w). fl (acc + fl (s * w))) ws
            (map (\<lambda>(k, d). (read_score d, read_weight d)) cs),
          foldl (\<lambda>acc (s, w). fl (acc + w)) tw
            (map (\<lambda>(k, d). (read_score d, read_weight d)) cs))"
  using assms
proof (induction cs arbitrary: ws tw)
  case Nil
  then show ?case by simp
next
  case (Cons x cs)
  obtain k d where x: "x = (k, d)" by (cases x)
  from Cons.prems x have r: "\<not> raises_type_error d"
    and rest: "\<forall>(k, d) \<in> set cs. \<not> raises_type_error d"
    by auto
  from r have p: "case map_of d ''priority'' of None \<Rightarrow> True | Some v \<Rightarrow> hashable v"
    and s: "case map_of d ''score'' of None \<Rightarrow> True | Some v \<Rightarrow> is_number v"
    by (auto simp: raises_type_error_def split: option.splits)
  show ?case
    unfolding x
    by (simp add: Let_def weights_get_readable[OF p] times_weight_readable[OF s]
        Cons.IH[OF rest])
qed

lemma total_weight_pos:
  assumes "0 \<le> tw" and "sw \<noteq> []" and "\<forall>(s, w) \<in> set sw. pow2 (- 3) \<le> w"
  shows "0 < foldl (\<lambda>acc (s, w). fl (acc + w)) tw sw"
  using assms
proof (induction sw arbitrary: tw)
  case Nil
  then show ?case by simp
next
  case (Cons x sw)
  obtain s w where x: "x = (s, w)" by (cases x)
  from Cons.prems x have w: "pow2 (- 3) \<le> w" and rest: "\<forall>(s, w) \<in> set sw. pow2 (- 3) \<le> w" by auto
  from w Cons.prems(1) have "pow2 (- 3) \<le> tw + w" by simp
  then have pos: "0 < fl (tw + w)" by (rule fl_pos_eighth)
  show ?case
  proof (cases "sw = []")
    case True
    with pos show ?thesis by (simp add: x)
  next
    case False
    from pos have "0 \<le> fl (tw + w)" by simp
    from Cons.IH[OF this False rest] show ?thesis by (simp add: x)
  qed
qed

lemma overall_score_formula:
  assumes "\<forall>(k, d) \<in> set cs. \<not> raises_type_error d"
  shows "calculate_overall_score_any cs =
     Inr (if cs = [] then 100
          else py_round2 (float_weighted_mean (map (\<lambda>(k, d). (read_score d, read_weight d)) cs)))"
proof (cases "cs = []")
  case True
  then show ?thesis by (simp add: calculate_overall_score_any_def)
next
  case False
  let ?sw = "map (\<lambda>(k, d). (read_score d, read_weight d)) cs"
  have "\<forall>(s, w) \<in> set ?sw. pow2 (- 3) \<le> w" by (auto simp: read_weight_ge)
  moreover from False have "?sw \<noteq> []" by simp
  ultimately have "0 < foldl (\<lambda>acc (s, w). fl (acc + w)) 0 ?sw"
    using total_weight_pos[of 0 ?sw] by simp
  then have nz: "foldl (\<lambda>acc (s, w). fl (acc + w)) 0 ?sw \<noteq> 0" by simp
  show ?thesis
    using False nz
    by (simp add: calculate_overall_score_any_def overall_loop_readable[OF assms]
        float_div_def float_weighted_mean_def)
qed

lemma entry_raises:
  assumes "raises_type_error d"
  shows "overall_loop ((k, d) # rest) (ws, tw) = Inl TypeError"
proof (cases "case map_of d ''priority'' of None \<Rightarrow> False | Some v \<Rightarrow> \<not> hashable v")
  case True
  then obtain v where v: "map_of d ''priority'' = Some v" "\<not> hashable v"
    by (auto split: option.splits)
  then have "weights_get (dict_get d ''priority'' (PStr ''Medium'')) = Inl TypeError"
    by (cases v) (simp_all add: dict_get_def weights_get_def hashable_def)
  then show ?thesis by (simp add: Let_def)
next
  case False
  with assms obtain v where v: "map_of d ''score'' = Some v" "\<not> is_number v"
    by (auto simp: raises_type_error_def split: option.splits)
  then have t: "\<And>w. times_weight (dict_get d ''score'' (PInt 0)) w = Inl TypeError"
    by (cases v) (simp_all add: dict_get_def times_weight_def is_number_def)
  have "weights_get (dict_get d ''priority'' (PStr ''Medium'')) = Inl TypeError
      \<or> (\<exists>w. weights_get (dict_get d ''priority'' (PStr ''Medium'')) = Inr w)"
    by (cases "dict_get d ''priority'' (PStr ''Medium'')") (simp_all add: weights_get_def)
  then show ?thesis by (auto simp: Let_def t)
qed

lemma overall_loop_append:
  assumes "\<forall>(k, d) \<in> set pre. \<not> raises_type_error d"
  shows "overall_loop (pre @ rest) (ws, tw) =
     overall_loop rest
       (foldl (\<lambda>acc (s, w). fl (acc + fl (s * w))) ws
            (map (\<lambda>(k, d). (read_score d, read_weight d)) pre),
        foldl (\<lambda>acc (s, w). fl (acc + w)) tw
            (map (\<lambda>(k, d). (read_score d, read_weight d)) pre))"
  using assms
proof (induction pre arbitrary: ws tw)
  case Nil
  then show ?case by simp
next
  case (Cons x pre)
  obtain k d where x: "x = (k, d)" by (cases x)
  from Cons.prems x have r: "\<not> raises_type_error d"
    and rest: "\<forall>(k, d) \<in> set pre. \<not> raises_type_error d"
    by auto
  from r have p: "case map_of d ''priority'' of None \<Rightarrow> True | Some v \<Rightarrow> hashable v"
    and s: "case map_of d ''score'' of None \<Rightarrow> True | Some v \<Rightarrow> is_number v"
    by (auto simp: raises_type_error_def split: option.splits)
  show ?case
    unfolding x
    by (simp add: Let_def weights_get_readable[OF p] times_weight_readable[OF s]
        Cons.IH[OF rest])
qed

lemma overall_score_raises:
  assumes "\<forall>(k, d) \<in> set pre. \<not> raises_type_error d" and "raises_type_error d"
  shows "calculate_overall_score_any (pre @ (k, d) # post) = Inl TypeError"
  unfolding calculate_overall_score_any_def overall_loop_append[OF assms(1)]
    entry_raises[OF assms(2)]
  by simp

lemma readable_entry_reads: "readable_entry d \<Longrightarrow> \<not> raises_type_error d"
  by (auto simp: readable_entry_def raises_type_error_def split: option.splits)

lemma score_data_dict_score:
  "map_of (score_data_dict sd) ''score'' = map_option PFloat (sd_score sd)"
  by (cases "sd_score sd"; cases "sd_priority sd") (simp_all add: score_data_dict_def)

lemma score_data_dict_priority:
  "map_of (score_data_dict sd) ''priority'' = map_option PStr (sd_priority sd)"
  by (cases "sd_score sd"; cases "sd_priority sd") (simp_all add: score_data_dict_def)

lemma score_data_dict_reads: "\<not> raises_type_error (score_data_dict sd)"
  by (cases "sd_score sd"; cases "sd_priority sd")
    (simp_all add: raises_type_error_def score_data_dict_score score_data_dict_priority
      hashable_def is_number_def)

lemma well_formed_read:
  assumes "well_formed_entry sd"
  shows "read_score (score_data_dict sd) = fl (the (sd_score sd))"
    and "read_weight (score_data_dict sd) = fl (tier_weight (the (sd_priority sd)))"
  using assms
  by (auto simp: well_formed_entry_def read_score_def read_weight_def score_data_dict_score
      score_data_dict_priority number_value_def tier_weight_def)

text \<open>
  A High category scoring 75 and a Medium category scoring 100: the weighted mean is
  1450/17 = 85.294..., and \<open>calculate_overall_score\<close> returns 85.29.
\<close>

theorem overall_score_counterexample:
  "calculate_overall_score
     [(''A01'', \<lparr>sd_category = ''Broken Access Control'', sd_score = Some 75,
                sd_total_issues = 1, sd_critical = 1, sd_high = 0, sd_medium = 0, sd_low = 0,
                sd_priority = Some ''High''\<rparr>),
      (''A09'', \<lparr>sd_category = ''Logging and Monitoring Failures'', sd_score = Some 100,
                sd_total_issues = 0, sd_critical = 0, sd_high = 0, sd_medium = 0, sd_low = 0,
                sd_priority = Some ''Medium''\<rparr>)] = Inr (8529 / 100)
   \<and> weighted_mean [(75, 50 / 100), (100, 35 / 100)] = 1450 / 17"
  by code_simp

text \<open>
  C3, as the code has it. For a category-scores map whose entries carry a score between 0
  and 100 and a priority among High, Medium, Low, \<open>calculate_overall_score\<close> returns the
  weighted mean of the scores with the weights High 0.50, Medium 0.35, Low 0.15,
  normalised by the sum of the weights of the entries present, computed in double
  precision with the sums accumulated in the order of the map, and rounded to two decimal
  places; on the empty map it returns exactly 100. The weights are the doubles nearest to
  0.35 and 0.15 (0.5 is a double). For the categories 75 High, 97 Medium, 92 Medium the
  exact mean is 86.375, the float mean lies just below it and the result is 86.37.
\<close>

theorem overall_score_weighted_mean:
  "((\<forall>(category_id, score_data) \<in> set category_scores.
        well_formed_entry score_data
        \<and> 0 \<le> the (sd_score score_data) \<and> the (sd_score score_data) \<le> 100)
    \<longrightarrow> calculate_overall_score category_scores =
           Inr (if category_scores = [] then 100
                else py_round2 (float_weighted_mean (scores_weights category_scores))))
   \<and> calculate_overall_score [] = Inr 100
   \<and> fl (50 / 100) = 1 / 2
   \<and> fl (35 / 100) = 3152519739159347 / 9007199254740992
   \<and> fl (15 / 100) = 5404319552844595 / 36028797018963968
   \<and> scores_weights
        [(''A01'', \<lparr>sd_category = ''Broken Access Control'', sd_score = Some 75,
                sd_total_issues = 1, sd_critical = 1, sd_high = 0, sd_medium = 0, sd_low = 0,
                sd_priority = Some ''High''\<rparr>),
         (''A09'', \<lparr>sd_category = ''Logging and Monitoring Failures'', sd_score = Some 97,
                sd_total_issues = 1, sd_critical = 0, sd_high = 0, sd_medium = 0, sd_low = 1,
                sd_priority = Some ''Medium''\<rparr>),
         (''A10'', \<lparr>sd_category = ''Server-Side Request Forgery'', sd_score = Some 92,
                sd_total_issues = 1, sd_critical = 0, sd_high = 0, sd_medium = 1, sd_low = 0,
                sd_priority = Some ''Medium''\<rparr>)]
      = [(75, 1 / 2), (97, 3152519739159347 / 9007199254740992),
         (92, 3152519739159347 / 9007199254740992)]
   \<and> weighted_mean [(75, 50 / 100), (97, 35 / 100), (92, 35 / 100)] = 86375 / 1000
   \<and> float_weighted_mean
        [(75, 1 / 2), (97, 3152519739159347 / 9007199254740992),
         (92, 3152519739159347 / 9007199254740992)]
      = 6078100278345727 / 70368744177664
   \<and> calculate_overall_score
        [(''A01'', \<lparr>sd_category = ''Broken Access Control'', sd_score = Some 75,
                sd_total_issues = 1, sd_critical = 1, sd_high = 0, sd_medium = 0, sd_low = 0,
                sd_priority = Some ''High''\<rparr>),
         (''A09'', \<lparr>sd_category = ''Logging and Monitoring Failures'', sd_score = Some 97,
                sd_total_issues = 1, sd_critical = 0, sd_high = 0, sd_medium = 0, sd_low = 1,
                sd_priority = Some ''Medium''\<rparr>),
         (''A10'', \<lparr>sd_category = ''Server-Side Request Forgery'', sd_score = Some 92,
                sd_total_issues = 1, sd_critical = 0, sd_high = 0, sd_medium = 1, sd_low = 0,
                sd_priority = Some ''Medium''\<rparr>)] = Inr (8637 / 100)"
proof -
  have general: "calculate_overall_score category_scores =
           Inr (if category_scores = [] then 100
                else py_round2 (float_weighted_mean (scores_weights category_scores)))"
    if wf: "\<forall>(category_id, score_data) \<in> set category_scores.
        well_formed_entry score_data
        \<and> 0 \<le> the (sd_score score_data) \<and> the (sd_score score_data) \<le> 100"
  proof -
    let ?ds = "map (\<lambda>(category_id, score_data). (category_id, score_data_dict score_data))
                 category_scores"
    have reads: "\<forall>(k, d) \<in> set ?ds. \<not> raises_type_error d"
      by (auto simp: score_data_dict_reads)
    have sw: "map (\<lambda>(k, d). (read_score d, read_weight d)) ?ds = scores_weights category_scores"
      unfolding scores_weights_def map_map
    proof (rule map_cong[OF refl])
      fix x assume x: "x \<in> set category_scores"
      obtain c sd where cs: "x = (c, sd)" by (cases x)
      from wf x cs have "well_formed_entry sd" by auto
      from well_formed_read[OF this]
      show "((\<lambda>(k, d). (read_score d, read_weight d))
               \<circ> (\<lambda>(category_id, score_data). (category_id, score_data_dict score_data))) x
          = (case x of (category_id, sd) \<Rightarrow>
               (fl (the (sd_score sd)), fl (tier_weight (the (sd_priority sd)))))"
        unfolding cs by simp
    qed
    have e: "(?ds = []) = (category_scores = [])" by simp
    show ?thesis
      unfolding calculate_overall_score_def overall_score_formula[OF reads] sw e ..
  qed
  have pinned: "calculate_overall_score [] = Inr 100
   \<and> fl (50 / 100) = 1 / 2
   \<and> fl (35 / 100) = 3152519739159347 / 9007199254740992
   \<and> fl (15 / 100) = 5404319552844595 / 36028797018963968
   \<and> scores_weights
        [(''A01'', \<lparr>sd_category = ''Broken Access Control'', sd_score = Some 75,
                sd_total_issues = 1, sd_critical = 1, sd_high = 0, sd_medium = 0, sd_low = 0,
                sd_priority = Some ''High''\<rparr>),
         (''A09'', \<lparr>sd_category = ''Logging and Monitoring Failures'', sd_score = Some 97,
                sd_total_issues = 1, sd_critical = 0, sd_high = 0, sd_medium = 0, sd_low = 1,
                sd_priority = Some ''Medium''\<rparr>),
         (''A10'', \<lparr>sd_category = ''Server-Side Request Forgery'', sd_score = Some 92,
                sd_total_issues = 1, sd_critical = 0, sd_high = 0, sd_medium = 1, sd_low = 0,
                sd_priority = Some ''Medium''\<rparr>)]
      = [(75, 1 / 2), (97, 3152519739159347 / 9007199254740992),
         (92, 3152519739159347 / 9007199254740992)]
   \<and> weighted_mean [(75, 50 / 100), (97, 35 / 100), (92, 35 / 100)] = 86375 / 1000
   \<and> float_weighted_mean
        [(75, 1 / 2), (97, 3152519739159347 / 9007199254740992),
         (92, 3152519739159347 / 9007199254740992)]
      = 6078100278345727 / 70368744177664
   \<and> calculate_overall_score
        [(''A01'', \<lparr>sd_category = ''Broken Access Control'', sd_score = Some 75,
                sd_total_issues = 1, sd_critical = 1, sd_high = 0, sd_medium = 0, sd_low = 0,
                sd_priority = Some ''High''\<rparr>),
         (''A09'', \<lparr>sd_category = ''Logging and Monitoring Failures'', sd_score = Some 97,
                sd_total_issues = 1, sd_critical = 0, sd_high = 0, sd_medium = 0, sd_low = 1,
                sd_priority = Some ''Medium''\<rparr>),
         (''A10'', \<lparr>sd_category = ''Server-Side Request Forgery'', sd_score = Some 92,
                sd_total_issues = 1, sd_critical = 0, sd_high = 0, sd_medium = 1, sd_low = 0,
                sd_priority = Some ''Medium''\<rparr>)] = Inr (8637 / 100)"
    by code_simp
  from general pinned show ?thesis by (intro conjI impI) simp_all
qed

theorem overall_score_weighted_mean_witness:
  "well_formed_entry \<lparr>sd_category = ''Injection'', sd_score = Some 75,
                sd_total_issues = 1, sd_critical = 1, sd_high = 0, sd_medium = 0, sd_low = 0,
                sd_priority = Some ''High''\<rparr>
   \<and> 0 \<le> the (sd_score \<lparr>sd_category = ''Injection'', sd_score = Some 75,
                sd_total_issues = 1, sd_critical = 1, sd_high = 0, sd_medium = 0, sd_low = 0,
                sd_priority = Some ''High''\<rparr>)
   \<and> the (sd_score \<lparr>sd_category = ''Injection'', sd_score = Some 75,
                sd_total_issues = 1, sd_critical = 1, sd_high = 0, sd_medium = 0, sd_low = 0,
                sd_priority = Some ''High''\<rparr>) \<le> 100
   \<and> well_formed_entry \<lparr>sd_category = ''Logging and Monitoring Failures'', sd_score = Some 100,
                sd_total_issues = 0, sd_critical = 0, sd_high = 0, sd_medium = 0, sd_low = 0,
                sd_priority = Some ''Medium''\<rparr>
   \<and> 0 \<le> the (sd_score \<lparr>sd_category = ''Logging and Monitoring Failures'', sd_score = Some 100,
                sd_total_issues = 0, sd_critical = 0, sd_high = 0, sd_medium = 0, sd_low = 0,
                sd_priority = Some ''Medium''\<rparr>)
   \<and> the (sd_score \<lparr>sd_category = ''Logging and Monitoring Failures'', sd_score = Some 100,
                sd_total_issues = 0, sd_critical = 0, sd_high = 0, sd_medium = 0, sd_low = 0,
                sd_priority = Some ''Medium''\<rparr>) \<le> 100
   \<and> calculate_overall_score [(''A03'', \<lparr>sd_category = ''Injection'', sd_score = Some 75,
                sd_total_issues = 1, sd_critical = 1, sd_high = 0, sd_medium = 0, sd_low = 0,
                sd_priority = Some ''High''\<rparr>), (''A09'', \<lparr>sd_category = ''Logging and Monitoring Failures'', sd_score = Some 100,
                sd_total_issues = 0, sd_critical = 0, sd_high = 0, sd_medium = 0, sd_low = 0,
                sd_priority = Some ''Medium''\<rparr>)]
      = Inr (py_round2 (float_weighted_mean (scores_weights [(''A03'', \<lparr>sd_category = ''Injection'', sd_score = Some 75,
                sd_total_issues = 1, sd_critical = 1, sd_high = 0, sd_medium = 0, sd_low = 0,
                sd_priority = Some ''High''\<rparr>), (''A09'', \<lparr>sd_category = ''Logging and Monitoring Failures'', sd_score = Some 100,
                sd_total_issues = 0, sd_critical = 0, sd_high = 0, sd_medium = 0, sd_low = 0,
                sd_priority = Some ''Medium''\<rparr>)])))
   \<and> py_round2 (float_weighted_mean (scores_weights [(''A03'', \<lparr>sd_category = ''Injection'', sd_score = Some 75,
                sd_total_issues = 1, sd_critical = 1, sd_high = 0, sd_medium = 0, sd_low = 0,
                sd_priority = Some ''High''\<rparr>), (''A09'', \<lparr>sd_category = ''Logging and Monitoring Failures'', sd_score = Some 100,
                sd_total_issues = 0, sd_critical = 0, sd_high = 0, sd_medium = 0, sd_low = 0,
                sd_priority = Some ''Medium''\<rparr>)]))
      = 8529 / 100"
proof -
  let ?a = "\<lparr>sd_category = ''Injection'', sd_score = Some 75,
                sd_total_issues = 1, sd_critical = 1, sd_high = 0, sd_medium = 0, sd_low = 0,
                sd_priority = Some ''High''\<rparr>"
  let ?b = "\<lparr>sd_category = ''Logging and Monitoring Failures'', sd_score = Some 100,
                sd_total_issues = 0, sd_critical = 0, sd_high = 0, sd_medium = 0, sd_low = 0,
                sd_priority = Some ''Medium''\<rparr>"
  have a: "well_formed_entry ?a \<and> 0 \<le> the (sd_score ?a) \<and> the (sd_score ?a) \<le> 100"
    and b: "well_formed_entry ?b \<and> 0 \<le> the (sd_score ?b) \<and> the (sd_score ?b) \<le> 100"
    by (simp_all add: well_formed_entry_def)
  then have wf: "\<forall>(category_id, score_data) \<in> set [(''A03'', ?a), (''A09'', ?b)].
        well_formed_entry score_data
        \<and> 0 \<le> the (sd_score score_data) \<and> the (sd_score score_data) \<le> 100" by simp
  have r: "py_round2 (float_weighted_mean (scores_weights [(''A03'', ?a), (''A09'', ?b)]))
      = 8529 / 100"
    by code_simp
  from overall_score_weighted_mean[of "[(''A03'', ?a), (''A09'', ?b)]"]
  have "(\<forall>(category_id, score_data) \<in> set [(''A03'', ?a), (''A09'', ?b)].
        well_formed_entry score_data
        \<and> 0 \<le> the (sd_score score_data) \<and> the (sd_score score_data) \<le> 100)
    \<longrightarrow> calculate_overall_score [(''A03'', ?a), (''A09'', ?b)] =
           Inr (if [(''A03'', ?a), (''A09'', ?b)] = [] then 100
                else py_round2 (float_weighted_mean (scores_weights [(''A03'', ?a), (''A09'', ?b)])))"
    by (rule conjunct1)
  from this wf have "calculate_overall_score [(''A03'', ?a), (''A09'', ?b)] =
           Inr (if [(''A03'', ?a), (''A09'', ?b)] = [] then 100
                else py_round2 (float_weighted_mean (scores_weights [(''A03'', ?a), (''A09'', ?b)])))"
    by (rule mp)
  then have c: "calculate_overall_score [(''A03'', ?a), (''A09'', ?b)] =
           Inr (py_round2 (float_weighted_mean (scores_weights [(''A03'', ?a), (''A09'', ?b)])))"
    by simp
  from a b c r show ?thesis by (intro conjI) (erule conjunct1 conjunct2[THEN conjunct1] conjunct2[THEN conjunct2] | assumption)+
qed

text \<open>
  An entry whose priority is a list, which is none of High, Medium, Low: the lookup of the
  weight raises \<open>TypeError\<close>.
\<close>

theorem malformed_entries_counterexample:
  "calculate_overall_score_any
     [(''A01'', [(''score'', PFloat 50), (''priority'', PList [])])] = Inl TypeError"
  by code_simp

text \<open>
  C10, as the code has it. On a map whose entries have a hashable priority or none and a
  number between 0 and 100 as score or none, \<open>calculate_overall_score\<close> does not raise:
  it reads an entry whose priority is absent or none of High, Medium, Low with the Medium
  weight 0.35 and an entry without a score with the score 0, and returns the rounded float
  weighted mean of the entries so read (100 on the empty map). On a map in which such
  entries are followed by an entry whose priority is present and unhashable (a list, a
  dict), or whose score is present and no number (\<open>None\<close>, a string), it raises
  \<open>TypeError\<close>.
\<close>

theorem malformed_entries_defaults:
  "((\<forall>(category_id, score_data) \<in> set category_scores. readable_entry score_data)
    \<longrightarrow> calculate_overall_score_any category_scores =
          Inr (if category_scores = [] then 100
               else py_round2 (float_weighted_mean
                      (map (\<lambda>(category_id, score_data).
                              (read_score score_data, read_weight score_data))
                         category_scores))))
   \<and> ((\<forall>(category_id, score_data) \<in> set earlier. readable_entry score_data)
        \<and> raises_type_error entry
      \<longrightarrow> calculate_overall_score_any (earlier @ (entry_id, entry) # later) = Inl TypeError)
   \<and> map (\<lambda>(category_id, score_data). (read_score score_data, read_weight score_data))
        [(''A01'', [(''score'', PFloat 80), (''priority'', PStr ''High'')]),
         (''A02'', [(''score'', PFloat 50)]),
         (''A03'', [(''priority'', PStr ''Urgent'')]),
         (''A04'', [(''score'', PInt 90), (''priority'', PNone)]),
         (''A05'', [(''score'', PFloat 60), (''priority'', PStr ''Low'')]),
         (''A06'', [(''score'', PBool True), (''priority'', PStr ''Medium'')])]
      = [(80, 1 / 2), (50, 3152519739159347 / 9007199254740992),
         (0, 3152519739159347 / 9007199254740992),
         (90, 3152519739159347 / 9007199254740992),
         (60, 5404319552844595 / 36028797018963968),
         (1, 3152519739159347 / 9007199254740992)]
   \<and> calculate_overall_score_any
        [(''A01'', [(''score'', PFloat 80), (''priority'', PStr ''High'')]),
         (''A02'', [(''score'', PFloat 50)]),
         (''A03'', [(''priority'', PStr ''Urgent'')]),
         (''A04'', [(''score'', PInt 90), (''priority'', PNone)])] = Inr (5742 / 100)
   \<and> calculate_overall_score_any
        [(''A01'', [(''score'', PFloat 80), (''priority'', PStr ''High'')]),
         (''A02'', [(''score'', PNone), (''priority'', PStr ''Low'')])] = Inl TypeError
   \<and> calculate_overall_score_any [(''A01'', [(''score'', PStr ''80'')])] = Inl TypeError
   \<and> calculate_overall_score_any
        [(''A01'', [(''score'', PFloat 80), (''priority'', PDict [])])] = Inl TypeError"
proof -
  have general: "calculate_overall_score_any category_scores =
          Inr (if category_scores = [] then 100
               else py_round2 (float_weighted_mean
                      (map (\<lambda>(category_id, score_data).
                              (read_score score_data, read_weight score_data))
                         category_scores)))"
    if r: "\<forall>(category_id, score_data) \<in> set category_scores. readable_entry score_data"
  proof -
    from r have "\<forall>(k, d) \<in> set category_scores. \<not> raises_type_error d"
      by (auto dest: readable_entry_reads)
    then show ?thesis by (rule overall_score_formula)
  qed
  have raises: "calculate_overall_score_any (earlier @ (entry_id, entry) # later) = Inl TypeError"
    if r: "(\<forall>(category_id, score_data) \<in> set earlier. readable_entry score_data)
        \<and> raises_type_error entry"
  proof -
    from r have "\<forall>(k, d) \<in> set earlier. \<not> raises_type_error d"
      by (auto dest: readable_entry_reads)
    moreover from r have "raises_type_error entry" by simp
    ultimately show ?thesis by (rule overall_score_raises)
  qed
  have pinned: "map (\<lambda>(category_id, score_data). (read_score score_data, read_weight score_data))
        [(''A01'', [(''score'', PFloat 80), (''priority'', PStr ''High'')]),
         (''A02'', [(''score'', PFloat 50)]),
         (''A03'', [(''priority'', PStr ''Urgent'')]),
         (''A04'', [(''score'', PInt 90), (''priority'', PNone)]),
         (''A05'', [(''score'', PFloat 60), (''priority'', PStr ''Low'')]),
         (''A06'', [(''score'', PBool True), (''priority'', PStr ''Medium'')])]
      = [(80, 1 / 2), (50, 3152519739159347 / 9007199254740992),
         (0, 3152519739159347 / 9007199254740992),
         (90, 3152519739159347 / 9007199254740992),
         (60, 5404319552844595 / 36028797018963968),
         (1, 3152519739159347 / 9007199254740992)]
   \<and> calculate_overall_score_any
        [(''A01'', [(''score'', PFloat 80), (''priority'', PStr ''High'')]),
         (''A02'', [(''score'', PFloat 50)]),
         (''A03'', [(''priority'', PStr ''Urgent'')]),
         (''A04'', [(''score'', PInt 90), (''priority'', PNone)])] = Inr (5742 / 100)
   \<and> calculate_overall_score_any
        [(''A01'', [(''score'', PFloat 80), (''priority'', PStr ''High'')]),
         (''A02'', [(''score'', PNone), (''priority'', PStr ''Low'')])] = Inl TypeError
   \<and> calculate_overall_score_any [(''A01'', [(''score'', PStr ''80'')])] = Inl TypeError
   \<and> calculate_overall_score_any
        [(''A01'', [(''score'', PFloat 80), (''priority'', PDict [])])] = Inl TypeError"
    by code_simp
  from general raises pinned show ?thesis by (intro conjI impI) simp_all
qed

theorem malformed_entries_defaults_witness:
  "readable_entry [(''score'', PFloat 80), (''priority'', PStr ''High'')]
   \<and> readable_entry [(''priority'', PStr ''Urgent'')]
   \<and> readable_entry [(''score'', PInt 90), (''priority'', PNone)]
   \<and> raises_type_error [(''score'', PFloat 50), (''priority'', PList [])]
   \<and> calculate_overall_score_any
        [(''A01'', [(''score'', PFloat 80), (''priority'', PStr ''High'')]),
         (''A03'', [(''priority'', PStr ''Urgent'')]),
         (''A04'', [(''score'', PInt 90), (''priority'', PNone)])]
      = Inr (py_round2 (float_weighted_mean
               [(80, fl (50 / 100)), (0, fl (35 / 100)), (90, fl (35 / 100))]))
   \<and> py_round2 (float_weighted_mean
        [(80, fl (50 / 100)), (0, fl (35 / 100)), (90, fl (35 / 100))]) = 5958 / 100
   \<and> calculate_overall_score_any
        ([(''A01'', [(''score'', PFloat 80), (''priority'', PStr ''High'')]),
          (''A03'', [(''priority'', PStr ''Urgent'')])]
         @ (''A04'', [(''score'', PFloat 50), (''priority'', PList [])])
         # [(''A05'', [(''score'', PInt 90), (''priority'', PNone)])]) = Inl TypeError"
proof -
  let ?a = "[(''score'', PFloat 80), (''priority'', PStr ''High'')]"
  let ?b = "[(''priority'', PStr ''Urgent'')]"
  let ?c = "[(''score'', PInt 90), (''priority'', PNone)]"
  let ?d = "[(''score'', PFloat 50), (''priority'', PList [])]"
  have a: "readable_entry ?a" and b: "readable_entry ?b" and c: "readable_entry ?c"
    and d: "raises_type_error ?d"
    by code_simp+
  from a b c have r3: "\<forall>(category_id, score_data) \<in> set [(''A01'', ?a), (''A03'', ?b), (''A04'', ?c)].
       readable_entry score_data" by simp
  from a b have r2: "\<forall>(category_id, score_data) \<in> set [(''A01'', ?a), (''A03'', ?b)].
       readable_entry score_data" by simp
  have m: "map (\<lambda>(category_id, score_data). (read_score score_data, read_weight score_data))
             [(''A01'', ?a), (''A03'', ?b), (''A04'', ?c)]
           = [(80, fl (50 / 100)), (0, fl (35 / 100)), (90, fl (35 / 100))]"
    by code_simp
  have v: "py_round2 (float_weighted_mean
        [(80, fl (50 / 100)), (0, fl (35 / 100)), (90, fl (35 / 100))]) = 5958 / 100"
    by code_simp
  note inst = malformed_entries_defaults[of "[(''A01'', ?a), (''A03'', ?b), (''A04'', ?c)]"
      "[(''A01'', ?a), (''A03'', ?b)]" ?d "''A04''" "[(''A05'', ?c)]"]
  from inst[THEN conjunct1, THEN mp, OF r3]
  have e1: "calculate_overall_score_any [(''A01'', ?a), (''A03'', ?b), (''A04'', ?c)]
      = Inr (py_round2 (float_weighted_mean
               [(80, fl (50 / 100)), (0, fl (35 / 100)), (90, fl (35 / 100))]))"
    unfolding m by simp
  from inst[THEN conjunct2, THEN conjunct1, THEN mp, OF conjI[OF r2 d]]
  have e2: "calculate_overall_score_any
        ([(''A01'', ?a), (''A03'', ?b)] @ (''A04'', ?d) # [(''A05'', ?c)]) = Inl TypeError" .
  from a b c d e1 v e2 show ?thesis by (intro conjI)
qed


text \<open>
  The scenario with the finding's type under the name the lookup table has: the overall
  score is 97.34, not 97.5, since A09 and A10 are Medium categories. With the type given
  as the test id \<open>B608\<close> the finding is filed under no category at all.
\<close>

theorem b608_scenario_counterexample:
  "calculate_overall_score
     (calculate_category_scores ''OWASP''
        (categorize_findings ''OWASP'' [(''bandit'', [b608_finding])])) = Inr (9734 / 100)
   \<and> calculate_overall_score
     (calculate_category_scores ''OWASP''
        (categorize_findings ''OWASP'' [(''bandit'', [b608_finding])])) \<noteq> Inr (975 / 10)
   \<and> map (\<lambda>(category_id, category_def). (cd_id category_def, cd_priority category_def))
       OWASP_CATEGORIES
     = [(''A01'', ''High''), (''A02'', ''High''), (''A03'', ''High''), (''A04'', ''High''),
        (''A05'', ''High''), (''A06'', ''High''), (''A07'', ''High''), (''A08'', ''High''),
        (''A09'', ''Medium''), (''A10'', ''Medium'')]
   \<and> categorize_findings ''OWASP''
       [(''bandit'', [b608_finding\<lparr>f_type := Some ''B608''\<rparr>])] = []"
  by code_simp

text \<open>
  C7, as the code has it. For the OWASP framework and the single Bandit finding of type
  \<open>hardcoded_sql_string\<close> at severity critical: the finding is filed under A03 alone with
  one CRITICAL entry, A03 scores 75 and the other nine categories 100, eight categories
  are High and two (A09, A10) Medium, and the overall score is
  \<open>round((75 * 0.5 + 7 * 100 * 0.5 + 2 * 100 * 0.35) / (8 * 0.5 + 2 * 0.35), 2) = 97.34\<close>.
\<close>

theorem b608_scenario:
  "categorize_findings ''OWASP'' [(''bandit'', [b608_finding])]
     = [(''A03'', [make_entry ''bandit'' b608_finding])]
   \<and> e_severity (make_entry ''bandit'' b608_finding) = ''CRITICAL''
   \<and> map (\<lambda>(category_id, score_data).
             (category_id, sd_score score_data, sd_critical score_data, sd_priority score_data))
       (calculate_category_scores ''OWASP''
          (categorize_findings ''OWASP'' [(''bandit'', [b608_finding])]))
     = [(''A01'', Some 100, 0, Some ''High''), (''A02'', Some 100, 0, Some ''High''),
        (''A03'', Some 75, 1, Some ''High''), (''A04'', Some 100, 0, Some ''High''),
        (''A05'', Some 100, 0, Some ''High''), (''A06'', Some 100, 0, Some ''High''),
        (''A07'', Some 100, 0, Some ''High''), (''A08'', Some 100, 0, Some ''High''),
        (''A09'', Some 100, 0, Some ''Medium''), (''A10'', Some 100, 0, Some ''Medium'')]
   \<and> calculate_overall_score
       (calculate_category_scores ''OWASP''
          (categorize_findings ''OWASP'' [(''bandit'', [b608_finding])]))
     = Inr (py_round2 ((75 * (50 / 100) + 7 * (100 * (50 / 100)) + 2 * (100 * (35 / 100)))
                        / (8 * (50 / 100) + 2 * (35 / 100))))
   \<and> py_round2 ((75 * (50 / 100) + 7 * (100 * (50 / 100)) + 2 * (100 * (35 / 100)))
                        / (8 * (50 / 100) + 2 * (35 / 100))) = 9734 / 100"
  by code_simp

section \<open>Properties of the classifier\<close>

lemma str_in_sublist: "str_in x s = sublist x s"
proof (induction s)
  case Nil
  then show ?case by simp
next
  case (Cons c cs)
  have "prefix x (c # cs) \<longleftrightarrow> take (length x) (c # cs) = x"
    by (metis append_eq_conv_conj prefix_def take_is_prefix)
  with Cons show ?case by (simp add: sublist_Cons_right)
qed

text \<open>
  A Bandit finding of type \<open>hardcoded_sql\<close> whose message speaks of SQL injection keeps
  its type as check identifier and matches no OWASP category; a Semgrep finding with the
  rule id \<open>Rule-1234\<close> and the message "SQL injection" gets the lower-cased rule id.
\<close>

theorem classifier_fallback_counterexample:
  "bandit_check_type
     \<lparr>f_type = Some ''hardcoded_sql'', f_rule_id = None,
      f_message = Some ''Possible SQL injection vector through string-based query construction'',
      f_severity = Some ''critical'', f_file = None, f_line = None\<rparr> = ''hardcoded_sql''
   \<and> map_bandit_to_categories ''OWASP''
     \<lparr>f_type = Some ''hardcoded_sql'', f_rule_id = None,
      f_message = Some ''Possible SQL injection vector through string-based query construction'',
      f_severity = Some ''critical'', f_file = None, f_line = None\<rparr> = []
   \<and> semgrep_check_type
     \<lparr>f_type = None, f_rule_id = Some ''Rule-1234'', f_message = Some ''SQL injection'',
      f_severity = Some ''high'', f_file = None, f_line = None\<rparr> = ''rule-1234''"
  by code_simp

text \<open>
  C6, as the code has it. The check identifier of a Bandit finding is the lookup table's
  entry for its lower-cased type, and the lower-cased type itself when the table has
  none, with no keyword matching. A Semgrep finding has no lookup table: its check
  identifier is that of the first keyword set, in the chain's order, one of whose
  keywords occurs in the lower-cased rule id, and the lower-cased rule id when none does.
  So \<open>Hardcoded_SQL\<close> stays \<open>hardcoded_sql\<close> for Bandit, and for Semgrep
  \<open>Python.SQL-Injection\<close> is \<open>sql_injection\<close>, \<open>weak-password-hash\<close> is
  \<open>weak_authentication\<close> (the earlier set wins), \<open>insecure-md5-hash\<close> is
  \<open>weak_encryption\<close> and \<open>Rule-1234\<close> is \<open>rule-1234\<close>.
\<close>

theorem classifier_fallback:
  "bandit_check_type finding =
     (case map_of test_mappings (lower (case f_type finding of None \<Rightarrow> [] | Some v \<Rightarrow> v)) of
        None \<Rightarrow> lower (case f_type finding of None \<Rightarrow> [] | Some v \<Rightarrow> v)
      | Some check_type \<Rightarrow> check_type)
   \<and> semgrep_check_type finding =
       first_keyword_match keyword_chain
         (lower (case f_rule_id finding of None \<Rightarrow> [] | Some v \<Rightarrow> v))
   \<and> bandit_check_type (b608_finding\<lparr>f_type := Some ''Hardcoded_SQL''\<rparr>) = ''hardcoded_sql''
   \<and> bandit_check_type (b608_finding\<lparr>f_type := Some ''Hardcoded_SQL_String''\<rparr>)
       = ''sql_injection''
   \<and> semgrep_check_type (b608_finding\<lparr>f_rule_id := Some ''Python.SQL-Injection''\<rparr>)
       = ''sql_injection''
   \<and> semgrep_check_type (b608_finding\<lparr>f_rule_id := Some ''weak-password-hash''\<rparr>)
       = ''weak_authentication''
   \<and> semgrep_check_type (b608_finding\<lparr>f_rule_id := Some ''insecure-md5-hash''\<rparr>)
       = ''weak_encryption''
   \<and> semgrep_check_type (b608_finding\<lparr>f_rule_id := Some ''Rule-1234''\<rparr>) = ''rule-1234''"
proof -
  have a: "bandit_check_type finding =
     (case map_of test_mappings (lower (case f_type finding of None \<Rightarrow> [] | Some v \<Rightarrow> v)) of
        None \<Rightarrow> lower (case f_type finding of None \<Rightarrow> [] | Some v \<Rightarrow> v)
      | Some check_type \<Rightarrow> check_type)"
    by (simp add: bandit_check_type_def dict_get_def get_str_def Let_def)
  have b: "semgrep_check_type finding =
       first_keyword_match keyword_chain
         (lower (case f_rule_id finding of None \<Rightarrow> [] | Some v \<Rightarrow> v))"
    by (simp add: semgrep_check_type_def first_keyword_match_def keyword_chain_def any_in_def
          str_in_sublist get_str_def Let_def)
  have p1: "bandit_check_type (b608_finding\<lparr>f_type := Some ''Hardcoded_SQL''\<rparr>) = ''hardcoded_sql''"
    by code_simp
  have p2: "bandit_check_type (b608_finding\<lparr>f_type := Some ''Hardcoded_SQL_String''\<rparr>)
       = ''sql_injection''"
    by code_simp
  have p3: "semgrep_check_type (b608_finding\<lparr>f_rule_id := Some ''Python.SQL-Injection''\<rparr>)
       = ''sql_injection''"
    by code_simp
  have p4: "semgrep_check_type (b608_finding\<lparr>f_rule_id := Some ''weak-password-hash''\<rparr>)
       = ''weak_authentication''"
    by code_simp
  have p5: "semgrep_check_type (b608_finding\<lparr>f_rule_id := Some ''insecure-md5-hash''\<rparr>)
       = ''weak_encryption''"
    by code_simp
  have p6: "semgrep_check_type (b608_finding\<lparr>f_rule_id := Some ''Rule-1234''\<rparr>) = ''rule-1234''"
    by code_simp
  from a b p1 p2 p3 p4 p5 p6 show ?thesis by (intro conjI)
qed

section \<open>Properties of the orchestrator and the workers\<close>

lemma db_insert_rejected:
  "sr_framework_id row \<notin> set (frameworks s) \<Longrightarrow> \<exists>e. db_insert s row = Inl e"
  by (simp add: db_insert_def)

lemma initiate_scan_rejected:
  assumes "framework_id \<notin> set (frameworks s)"
  shows "\<exists>e. initiate_scan broker s scan_id now url branch framework_id scan_types priority
     = (Inl e, s)"
proof -
  let ?row = "\<lparr>sr_id = 0, sr_scan_id = scan_id, sr_framework_id = framework_id,
             sr_repository_url = url, sr_branch = branch, sr_commit_hash = None,
             sr_scan_date = now, sr_status = ''pending'', sr_findings = Some [],
             sr_compliance_score = 0, sr_raw_output = Some []\<rparr>"
  from assms have "sr_framework_id ?row \<notin> set (frameworks s)" by simp
  from db_insert_rejected[OF this] obtain e where "db_insert s ?row = Inl e" by blast
  then have "initiate_scan broker s scan_id now url branch framework_id scan_types priority
     = (Inl e, s)"
    unfolding initiate_scan_def Let_def by (simp only: sum.case)
  then show ?thesis by blast
qed

lemma db_update_length: "length (scan_results (db_update s pk f)) = length (scan_results s)"
  by (simp add: db_update_def)

lemma db_update_status:
  assumes "\<And>r. sr_status (f r) = sr_status r"
  shows "map sr_status (scan_results (db_update s pk f)) = map sr_status (scan_results s)"
  by (simp add: db_update_def assms)

lemma db_update_score:
  assumes "\<And>r. sr_compliance_score (f r) = sr_compliance_score r"
  shows "map sr_compliance_score (scan_results (db_update s pk f)) = map sr_compliance_score (scan_results s)"
  by (simp add: db_update_def assms)

lemma worker_write_status:
  "worker_write key s loaded results raw = Inr s' \<Longrightarrow>
   map sr_status (scan_results s') = map sr_status (scan_results s)
   \<and> map sr_compliance_score (scan_results s') = map sr_compliance_score (scan_results s)"
  by (auto simp: worker_write_def db_update_status db_update_score
        split: option.splits if_splits)

lemma run_sast_scan_status:
  "map sr_status (scan_results (snd (run_sast_scan s scan_id scanned))) = map sr_status (scan_results s)
   \<and> map sr_compliance_score (scan_results (snd (run_sast_scan s scan_id scanned)))
       = map sr_compliance_score (scan_results s)"
  by (auto simp: run_sast_scan_def store_results_def dest: worker_write_status split: option.splits sum.splits prod.splits)

lemma run_dast_scan_status:
  "map sr_status (scan_results (snd (run_dast_scan s scan_id scanned))) = map sr_status (scan_results s)
   \<and> map sr_compliance_score (scan_results (snd (run_dast_scan s scan_id scanned)))
       = map sr_compliance_score (scan_results s)"
  by (auto simp: run_dast_scan_def store_results_def dest: worker_write_status split: option.splits sum.splits prod.splits)

text \<open>
  C5. A call of \<open>initiate_scan\<close> with a framework id that is no row of the frameworks
  table fails at once, at the commit of the new record (the database refuses the insert),
  and leaves the stored state as it was: no record, no task. The records change only for
  a framework id that exists. On the example database, framework 99 is refused and
  framework 1 gets its record, left \<open>in_progress\<close> with the task enqueued.
\<close>

theorem initiate_scan_unknown_framework:
  "(framework_id \<notin> set (frameworks s) \<longrightarrow>
      (\<exists>e. initiate_scan broker s scan_id now repository_url branch framework_id scan_types
             priority = (Inl e, s)))
   \<and> (scan_results (snd (initiate_scan broker s scan_id now repository_url branch framework_id
          scan_types priority)) \<noteq> scan_results s \<longrightarrow> framework_id \<in> set (frameworks s))
   \<and> initiate_scan (\<lambda>t. True) example_system ''scan-1'' 0 ''https://example.org/repo.git''
        ''main'' 99 [''sast''] 5 = (Inl IntegrityError, example_system)
   \<and> fst (initiate_scan (\<lambda>t. True) example_system ''scan-1'' 0
        ''https://example.org/repo.git'' ''main'' 1 [''sast''] 5) = Inr ''scan-1''
   \<and> map (\<lambda>r. (sr_scan_id r, sr_framework_id r, sr_status r))
        (scan_results (snd (initiate_scan (\<lambda>t. True) example_system ''scan-1'' 0
           ''https://example.org/repo.git'' ''main'' 1 [''sast''] 5)))
      = [(''scan-1'', 1, ''in_progress'')]
   \<and> map t_queue (task_queue (snd (initiate_scan (\<lambda>t. True) example_system ''scan-1'' 0
           ''https://example.org/repo.git'' ''main'' 1 [''sast''] 5))) = [''sast'']"
proof -
  have a: "framework_id \<notin> set (frameworks s) \<longrightarrow>
      (\<exists>e. initiate_scan broker s scan_id now repository_url branch framework_id scan_types
             priority = (Inl e, s))"
    using initiate_scan_rejected by blast
  have b: "scan_results (snd (initiate_scan broker s scan_id now repository_url branch framework_id
          scan_types priority)) \<noteq> scan_results s \<longrightarrow> framework_id \<in> set (frameworks s)"
  proof (intro impI, rule ccontr)
    assume changed: "scan_results (snd (initiate_scan broker s scan_id now repository_url branch
      framework_id scan_types priority)) \<noteq> scan_results s"
    assume "framework_id \<notin> set (frameworks s)"
    from initiate_scan_rejected[OF this, of broker scan_id now repository_url branch scan_types
        priority] changed
    show False by auto
  qed
  have c: "initiate_scan (\<lambda>t. True) example_system ''scan-1'' 0 ''https://example.org/repo.git''
        ''main'' 99 [''sast''] 5 = (Inl IntegrityError, example_system)"
    by code_simp
  have d: "fst (initiate_scan (\<lambda>t. True) example_system ''scan-1'' 0
        ''https://example.org/repo.git'' ''main'' 1 [''sast''] 5) = Inr ''scan-1''"
    by code_simp
  have e: "map (\<lambda>r. (sr_scan_id r, sr_framework_id r, sr_status r))
        (scan_results (snd (initiate_scan (\<lambda>t. True) example_system ''scan-1'' 0
           ''https://example.org/repo.git'' ''main'' 1 [''sast''] 5)))
      = [(''scan-1'', 1, ''in_progress'')]"
    by code_simp
  have f: "map t_queue (task_queue (snd (initiate_scan (\<lambda>t. True) example_system ''scan-1'' 0
           ''https://example.org/repo.git'' ''main'' 1 [''sast''] 5))) = [''sast'']"
    by code_simp
  from a b c d e f show ?thesis by (intro conjI)
qed

theorem initiate_scan_unknown_framework_witness:
  "99 \<notin> set (frameworks example_system)
   \<and> (\<exists>e. initiate_scan (\<lambda>t. False) example_system ''scan-2'' 7
          ''https://example.org/other.git'' ''dev'' 99 [''sast'', ''dast'', ''sca''] 9
        = (Inl e, example_system))
   \<and> scan_results (snd (initiate_scan (\<lambda>t. True) example_system ''scan-1'' 0
        ''https://example.org/repo.git'' ''main'' 1 [''sast''] 5)) \<noteq> scan_results example_system
   \<and> 1 \<in> set (frameworks example_system)"
proof -
  have a: "99 \<notin> set (frameworks example_system)" by (simp add: example_system_def)
  have n: "scan_results (snd (initiate_scan (\<lambda>t. True) example_system ''scan-1'' 0
        ''https://example.org/repo.git'' ''main'' 1 [''sast''] 5)) \<noteq> scan_results example_system"
    by code_simp
  note t1 = initiate_scan_unknown_framework[of 99 example_system "\<lambda>t. False" "''scan-2''" 7
      "''https://example.org/other.git''" "''dev''" "[''sast'', ''dast'', ''sca'']" 9]
  note t2 = initiate_scan_unknown_framework[of 1 example_system "\<lambda>t. True" "''scan-1''" 0
      "''https://example.org/repo.git''" "''main''" "[''sast'']" 5]
  from t1 a have r1: "\<exists>e. initiate_scan (\<lambda>t. False) example_system ''scan-2'' 7
          ''https://example.org/other.git'' ''dev'' 99 [''sast'', ''dast'', ''sca''] 9
        = (Inl e, example_system)"
    by blast
  from t2 n have r2: "1 \<in> set (frameworks example_system)" by blast
  from a r1 n r2 show ?thesis by (intro conjI)
qed

text \<open>
  C1, at the failing input. The claim says that the merge of the last outstanding
  analysis type writes the scores and sets the status to complete. \<open>run_sast_scan\<close> and
  \<open>run_dast_scan\<close> leave the status and the compliance score of every record as they
  were, whatever the input; for a scan started with the one analysis type sast (or dast),
  the record after the worker's merge holds the findings and is still \<open>in_progress\<close>.
\<close>

theorem last_merge_leaves_status:
  "map sr_status (scan_results (snd (run_sast_scan s scan_id scanned)))
     = map sr_status (scan_results s)
   \<and> map sr_compliance_score (scan_results (snd (run_sast_scan s scan_id scanned)))
     = map sr_compliance_score (scan_results s)
   \<and> map sr_status (scan_results (snd (run_dast_scan s scan_id scanned)))
     = map sr_status (scan_results s)
   \<and> map sr_compliance_score (scan_results (snd (run_dast_scan s scan_id scanned)))
     = map sr_compliance_score (scan_results s)
   \<and> map (\<lambda>r. (sr_scan_id r, sr_status r, sr_findings r, sr_compliance_score r))
       (scan_results (snd (run_sast_scan (example_scan [''sast'']) ''scan-1''
          (Inr (''{sast results}'', ''{sast raw}'')))))
     = [(''scan-1'', ''in_progress'', Some [(''sast'', ''{sast results}'')], 0)]
   \<and> map (\<lambda>r. (sr_scan_id r, sr_status r, sr_findings r, sr_compliance_score r))
       (scan_results (snd (run_dast_scan (example_scan [''dast'']) ''scan-1''
          (Inr (''{dast results}'', ''{dast raw}'')))))
     = [(''scan-1'', ''in_progress'', Some [(''dast'', ''{dast results}'')], 0)]"
proof -
  have a: "map (\<lambda>r. (sr_scan_id r, sr_status r, sr_findings r, sr_compliance_score r))
       (scan_results (snd (run_sast_scan (example_scan [''sast'']) ''scan-1''
          (Inr (''{sast results}'', ''{sast raw}'')))))
     = [(''scan-1'', ''in_progress'', Some [(''sast'', ''{sast results}'')], 0)]"
    by code_simp
  have b: "map (\<lambda>r. (sr_scan_id r, sr_status r, sr_findings r, sr_compliance_score r))
       (scan_results (snd (run_dast_scan (example_scan [''dast'']) ''scan-1''
          (Inr (''{dast results}'', ''{dast raw}'')))))
     = [(''scan-1'', ''in_progress'', Some [(''dast'', ''{dast results}'')], 0)]"
    by code_simp
  from a b run_sast_scan_status[of s scan_id scanned] run_dast_scan_status[of s scan_id scanned]
  show ?thesis by simp
qed


end
